theory Spec2Isabelle
  imports Main "HOL-Library.Word"
begin

section \<open>The LDAP client of lib/client/client.js\<close>

text \<open>
  A shallow embedding of \<^verbatim>\<open>lib/client/client.js\<close>. JavaScript numbers that hold
  integers are \<open>int\<close> (every value here stays far below \<open>2^53\<close>), \<open>undefined\<close> and
  \<open>null\<close> are \<open>None\<close>, an object used as a dictionary is an association list, and
  every call of a callback the caller handed in, every event emitted and every write
  to the socket is appended to a trace of events. Objects that are shared and changed
  in place, the sockets and the closures of \<^verbatim>\<open>_sendSocket\<close>, live in two stores of
  the client and are known by their addresses.

  Embedded: \<^verbatim>\<open>RequestQueue\<close> with all its methods, \<^verbatim>\<open>validateControls\<close>, the
  constructor \<^verbatim>\<open>Client\<close>, \<^verbatim>\<open>abandon\<close>, \<^verbatim>\<open>compare\<close>, \<^verbatim>\<open>modifyDN\<close>,
  \<^verbatim>\<open>search\<close>, \<^verbatim>\<open>unbind\<close>, \<^verbatim>\<open>destroy\<close>, \<^verbatim>\<open>nextClientId\<close>, \<^verbatim>\<open>_connect\<close>
  (the retry it configures and starts, \<^verbatim>\<open>initSocket\<close>, \<^verbatim>\<open>onConnect\<close>, and the
  function called when the retry ends), \<^verbatim>\<open>_flushQueue\<close>, \<^verbatim>\<open>_onClose\<close>, \<^verbatim>\<open>_updateIdle\<close>, \<^verbatim>\<open>_send\<close> and
  \<^verbatim>\<open>_sendSocket\<close> with the five functions it defines. Callbacks of the caller are
  opaque: a call of one is recorded and changes nothing. The timers are run by the
  environment: the function a timer was given is a function of the model, called when
  the timer fires. Left out: \<^verbatim>\<open>add\<close>, \<^verbatim>\<open>bind\<close>, \<^verbatim>\<open>del\<close>, \<^verbatim>\<open>exop\<close> and
  \<^verbatim>\<open>modify\<close>, the connect timeout, the setup listeners, and the listeners of
  \<^verbatim>\<open>postSetup\<close>.
\<close>

subsection \<open>Globals\<close>

text \<open>
  \<^verbatim>\<open>errors.LDAP_SUCCESS\<close>, \<^verbatim>\<open>errors.LDAP_COMPARE_FALSE\<close> and
  \<^verbatim>\<open>errors.LDAP_COMPARE_TRUE\<close> are declared in lib/errors, with the result codes
  of RFC 4511: 0, 5 and 6.
\<close>

definition LDAP_SUCCESS :: int where
  "LDAP_SUCCESS = 0"

definition LDAP_COMPARE_FALSE :: int where
  "LDAP_COMPARE_FALSE = 5"

definition LDAP_COMPARE_TRUE :: int where
  "LDAP_COMPARE_TRUE = 6"

definition CMP_EXPECT :: "int list" where
  "CMP_EXPECT = [LDAP_COMPARE_TRUE, LDAP_COMPARE_FALSE]"

definition MAX_MSGID :: int where
  "MAX_MSGID = 2 ^ 31 - 1"

subsection \<open>Errors, controls, messages\<close>

datatype error =
    TypeError string
  | JsError string
  | ConnectionError string
  | AssertionError string
  | ServerError int
  | ProtocolError string

type_synonym bytes = "8 word list"

text \<open>
  A control is a \<^verbatim>\<open>PagedResultsControl\<close>, whose value holds a size and a cookie
  (a buffer, or nothing), or any other control, of which only the OID is kept.
\<close>

datatype control =
    PagedResultsControl int "bytes option"
  | OtherControl string

text \<open>\<^verbatim>\<open>res.status\<close> is a number, or the string that \<^verbatim>\<open>_onClose\<close> stores in it.\<close>

datatype status = NumStatus int | StrStatus string

text \<open>
  What \<^verbatim>\<open>_send\<close> is given as \<^verbatim>\<open>expect\<close>: an array of result codes, or one of
  the strings \<^verbatim>\<open>'abandon'\<close> and \<^verbatim>\<open>'unbind'\<close>.
\<close>

datatype expect = ExpectCodes "int list" | ExpectAbandon | ExpectUnbind

subsection \<open>Values handed to the API\<close>

text \<open>
  A relative distinguished name is a list of attribute and value pairs; a DN object is
  the list of its RDNs (\<^verbatim>\<open>DN.rdns\<close>, whose length is \<^verbatim>\<open>DN.length\<close>).
\<close>

datatype rdn = RDN "(string \<times> string) list"

type_synonym dn = "rdn list"

datatype ldap_filter = PresenceFilter string | ParsedFilter string

text \<open>
  The arguments of the public methods are JavaScript values: the methods test their
  types at run time. A function is known by a number.
\<close>

datatype jsval =
    Undefined
  | Null
  | Bool bool
  | Num int
  | Str string
  | Function nat
  | Array "jsval list"
  | Object "(string \<times> jsval) list"
  | ControlObj control
  | FilterObj ldap_filter
  | DNObj dn

text \<open>What \<^verbatim>\<open>if (v)\<close>, \<^verbatim>\<open>!v\<close> and \<^verbatim>\<open>v || d\<close> test.\<close>

fun truthy :: "jsval \<Rightarrow> bool" where
  "truthy Undefined = False"
| "truthy Null = False"
| "truthy (Bool b) = b"
| "truthy (Num n) = (n \<noteq> 0)"
| "truthy (Str s) = (s \<noteq> [])"
| "truthy _ = True"

definition js_or :: "jsval \<Rightarrow> jsval \<Rightarrow> jsval" where
  "js_or v d = (if truthy v then v else d)"

text \<open>\<^verbatim>\<open>o.k\<close> on an object literal: the value stored under \<open>k\<close>, or undefined.\<close>

definition get_prop :: "(string \<times> jsval) list \<Rightarrow> string \<Rightarrow> jsval" where
  "get_prop kvs k = (case map_of kvs k of None \<Rightarrow> Undefined | Some v \<Rightarrow> v)"

text \<open>\<^verbatim>\<open>Protocol.NEVER_DEREF_ALIASES\<close> is declared in lib/protocol (RFC 4511: 0).\<close>

definition NEVER_DEREF_ALIASES :: int where
  "NEVER_DEREF_ALIASES = 0"

subsection \<open>Request messages\<close>

record modifydn_request =
  entry :: dn
  deleteOldRdn :: bool
  newRdn :: "dn option"
  newSuperior :: "dn option"

record search_request =
  baseObject :: dn
  scope :: jsval
  search_filter :: ldap_filter
  derefAliases :: jsval
  sizeLimit :: jsval
  timeLimit :: jsval
  typesOnly :: jsval
  attributes :: jsval

datatype protocolOp =
    AbandonRequest int
  | UnbindRequest
  | CompareRequest dn string string
  | ModifyDNRequest modifydn_request
  | SearchRequest search_request

record request =
  messageID :: int
  controls :: "control list"
  protocolOp :: protocolOp

subsection \<open>Response messages\<close>

text \<open>
  What a continuation of the request table is called with: a search entry, a search
  reference, an \<^verbatim>\<open>LDAPResult\<close> (status, error message, controls), an \<^verbatim>\<open>Error\<close>
  object, or a message of any other class, of which the type name is kept.
\<close>

datatype message =
    SearchEntry string "control list"
  | SearchReference string "control list"
  | LDAPResult status string "control list"
  | ErrorObject error
  | OtherMessage string "control list"

text \<open>\<^verbatim>\<open>msg.controls\<close>: an \<^verbatim>\<open>Error\<close> has none.\<close>

fun msg_controls :: "message \<Rightarrow> control list option" where
  "msg_controls (SearchEntry _ cs) = Some cs"
| "msg_controls (SearchReference _ cs) = Some cs"
| "msg_controls (LDAPResult _ _ cs) = Some cs"
| "msg_controls (ErrorObject _) = None"
| "msg_controls (OtherMessage _ cs) = Some cs"

text \<open>
  Modelled from the spec: lib/messages/unbind_response.js is not among the sources.
  \<^verbatim>\<open>_onClose\<close> builds \<^verbatim>\<open>new UnbindResponse({messageID: msgid})\<close> and stores
  \<^verbatim>\<open>'unbind'\<close> in its status; its comment and the spec say that the pending Unbind
  is communicated as a success, which \<^verbatim>\<open>messageCallback\<close> does for an
  \<^verbatim>\<open>LDAPResult\<close> whose status is found in \<^verbatim>\<open>expect\<close>. So the response is an
  \<^verbatim>\<open>LDAPResult\<close> with no controls.
\<close>

definition UnbindResponse :: message where
  "UnbindResponse = LDAPResult (StrStatus ''unbind'') [] []"

text \<open>
  Modelled from the spec: \<^verbatim>\<open>errors.getError\<close> is declared in lib/errors, which is
  not among the sources. It maps an \<^verbatim>\<open>LDAPResult\<close> to the server error of its
  result code.
\<close>

fun getError :: "message \<Rightarrow> error" where
  "getError (LDAPResult (NumStatus n) _ _) = ServerError n"
| "getError _ = ProtocolError ''unknown result''"

subsection \<open>Callbacks and the trace of what the client does\<close>

text \<open>
  The callback of a request: the caller's own function, the function \<^verbatim>\<open>compare\<close>
  wraps around it, or the empty function \<^verbatim>\<open>unbind\<close> takes when it is given none.
\<close>

datatype callback = UserCallback nat | CompareCallback nat | Noop

text \<open>An argument of a call: \<^verbatim>\<open>null\<close>, an error, a message, an emitter or a boolean.\<close>

datatype jsarg = ANull | AErr error | AMsg message | AEmitter nat | ABool bool

datatype backoff_strategy = ExponentialStrategy "int option" "int option"

datatype event =
    Called nat "jsarg list"
  | CalledNoop "jsarg list"
  | Uncaught error
  | EmitterEmit nat string jsarg
  | EmitterRemoveAllListeners nat string
  | ClientEmit string
  | SocketWrite nat request
  | SocketEnd nat
  | SetTimeout nat int
  | ClearTimeout nat
  | RetryStart "backoff_strategy option" "int option"
  | RetryAbort

text \<open>
  Calling a callback. The function of \<^verbatim>\<open>compare\<close> is
  \<^verbatim>\<open>function (err, res) { if (err) return callback(err);
     return callback(null, (res.status === errors.LDAP_COMPARE_TRUE), res); }\<close>;
  reading \<^verbatim>\<open>res.status\<close> of a missing or null \<^verbatim>\<open>res\<close> raises a TypeError.
\<close>

fun arg_status :: "jsarg \<Rightarrow> status option" where
  "arg_status (AMsg (LDAPResult st _ _)) = Some st"
| "arg_status _ = None"

fun invoke :: "callback \<Rightarrow> jsarg list \<Rightarrow> event list" where
  "invoke (UserCallback n) args = [Called n args]"
| "invoke Noop args = [CalledNoop args]"
| "invoke (CompareCallback n) [] = [Uncaught (TypeError ''res is undefined'')]"
| "invoke (CompareCallback n) (AErr e # rest) = [Called n [AErr e]]"
| "invoke (CompareCallback n) (ABool True # rest) = [Called n [ABool True]]"
| "invoke (CompareCallback n) (AMsg m # rest) = [Called n [AMsg m]]"
| "invoke (CompareCallback n) (AEmitter em # rest) = [Called n [AEmitter em]]"
| "invoke (CompareCallback n) [err] = [Uncaught (TypeError ''res is undefined'')]"
| "invoke (CompareCallback n) (err # ANull # rest) = [Uncaught (TypeError ''res is null'')]"
| "invoke (CompareCallback n) (err # res # rest) =
     [Called n [ANull, ABool (arg_status res = Some (NumStatus LDAP_COMPARE_TRUE)), res]]"

subsection \<open>RequestQueue\<close>

text \<open>A queued request: \<^verbatim>\<open>[msg, expect, emitter, cb]\<close>; the same four values are
  what \<^verbatim>\<open>_send\<close> is called with, and a fifth, \<^verbatim>\<open>_bypass\<close>.\<close>

record send_call =
  sc_message :: request
  sc_expect :: expect
  sc_emitter :: "nat option"
  sc_callback :: callback

record queue_opts =
  opt_size :: "int option"
  opt_timeout :: "int option"

text \<open>\<^verbatim>\<open>size\<close> is \<open>None\<close> for Infinity; \<^verbatim>\<open>_timer\<close> is \<open>None\<close> for null, and
  otherwise the delay the running timer was started with.\<close>

record RequestQueue =
  q_size :: "int option"
  q_timeout :: int
  q_queue :: "send_call list"
  q_timer :: "int option"
  q_frozen :: bool

definition new_RequestQueue :: "queue_opts option \<Rightarrow> RequestQueue" where
  "new_RequestQueue opts =
     (let o_size = (case opts of None \<Rightarrow> None | Some o' \<Rightarrow> opt_size o');
          o_timeout = (case opts of None \<Rightarrow> None | Some o' \<Rightarrow> opt_timeout o')
      in \<lparr> q_size = (case o_size of Some n \<Rightarrow> if n > 0 then Some n else None | None \<Rightarrow> None),
           q_timeout = (case o_timeout of Some t \<Rightarrow> if t > 0 then t else 0 | None \<Rightarrow> 0),
           q_queue = [],
           q_timer = None,
           q_frozen = False \<rparr>)"

definition size_reached :: "RequestQueue \<Rightarrow> bool" where
  "size_reached q = (case q_size q of None \<Rightarrow> False | Some n \<Rightarrow> int (length (q_queue q)) \<ge> n)"

text \<open>\<^verbatim>\<open>enqueue\<close> returns whether the request was accepted, and the queue.\<close>

definition enqueue :: "send_call \<Rightarrow> RequestQueue \<Rightarrow> bool \<times> RequestQueue" where
  "enqueue e q =
     (if size_reached q \<or> q_frozen q then (False, q)
      else
        (let q1 = q\<lparr> q_queue := q_queue q @ [e] \<rparr>
         in if q_timeout q1 > 0
            then (if q_timer q1 \<noteq> None
                  then (True, q1\<lparr> q_timer := Some (q_timeout q1) \<rparr>)
                  else (True, q1))
            else (True, q1)))"

text \<open>
  \<^verbatim>\<open>flush(cb)\<close> clears the timer, takes the items out of the queue and calls
  \<^verbatim>\<open>cb\<close> on each in order. What \<^verbatim>\<open>cb\<close> does is done to the state of its caller,
  so \<open>flush\<close> returns the items and the emptied queue, and each caller folds its
  handler over the items.
\<close>

definition flush :: "RequestQueue \<Rightarrow> send_call list \<times> RequestQueue" where
  "flush q = (q_queue q, q\<lparr> q_timer := None, q_queue := [] \<rparr>)"

definition purge :: "RequestQueue \<Rightarrow> event list \<times> RequestQueue" where
  "purge q =
     (let (items, q') = flush q
      in (concat (map (\<lambda>e. invoke (sc_callback e) [AErr (JsError ''RequestQueue timeout'')]) items),
          q'))"

definition freeze :: "RequestQueue \<Rightarrow> RequestQueue" where
  "freeze q = q\<lparr> q_frozen := True \<rparr>"

definition thaw :: "RequestQueue \<Rightarrow> RequestQueue" where
  "thaw q = q\<lparr> q_frozen := False \<rparr>"

text \<open>The function \<^verbatim>\<open>enqueue\<close> hands to \<^verbatim>\<open>setTimeout\<close>.\<close>

definition queue_timer_fired :: "RequestQueue \<Rightarrow> event list \<times> RequestQueue" where
  "queue_timer_fired q = purge (freeze q)"

subsection \<open>Sockets, the request table and the closures of \<^verbatim>\<open>_sendSocket\<close>\<close>

text \<open>
  \<^verbatim>\<open>socket.ldap\<close>: the counter and the request table. The table is an object whose
  keys are message identifiers; \<^verbatim>\<open>Object.keys\<close> lists integer keys in ascending
  order, so the table is an association list kept in that order. What the table holds
  under a key is the \<^verbatim>\<open>messageCallback\<close> of one call of \<^verbatim>\<open>_sendSocket\<close>: the
  address of that call's closure.
\<close>

record ldap =
  ldap_id :: string
  ldap_messageID :: int
  ldap_messages :: "(int \<times> nat) list"

text \<open>
  A socket object. \<open>ldap\<close> is \<open>None\<close> once \<^verbatim>\<open>_onClose\<close> has deleted it;
  \<open>write_raises\<close> is the exception that \<^verbatim>\<open>conn.write(message.toBer(), ...)\<close>
  raises, if it raises one.
\<close>

record ldap_socket =
  ldap :: "ldap option"
  unbindMessageID :: "int option"
  writable :: bool
  write_raises :: "error option"

fun table_set :: "int \<Rightarrow> 'v \<Rightarrow> (int \<times> 'v) list \<Rightarrow> (int \<times> 'v) list" where
  "table_set k v [] = [(k, v)]"
| "table_set k v ((k', v') # rest) =
     (if k < k' then (k, v) # (k', v') # rest
      else if k = k' then (k, v) # rest
      else (k', v') # table_set k v rest)"

definition table_delete :: "int \<Rightarrow> (int \<times> 'v) list \<Rightarrow> (int \<times> 'v) list" where
  "table_delete k t = filter (\<lambda>kv. fst kv \<noteq> k) t"

definition getNextMessageID :: "ldap \<Rightarrow> int \<times> ldap" where
  "getNextMessageID l =
     (let l1 = l\<lparr> ldap_messageID := ldap_messageID l + 1 \<rparr>;
          l2 = (if ldap_messageID l1 \<ge> MAX_MSGID then l1\<lparr> ldap_messageID := 1 \<rparr> else l1)
      in (ldap_messageID l2, l2))"

text \<open>What \<^verbatim>\<open>initSocket\<close> stores in \<^verbatim>\<open>socket.ldap\<close>.\<close>

definition initSocket :: "string \<Rightarrow> ldap" where
  "initSocket ident = \<lparr> ldap_id = ident, ldap_messageID = 0, ldap_messages = [] \<rparr>"

text \<open>The identifiers the first \<open>n\<close> calls of \<^verbatim>\<open>getNextMessageID\<close> yield, in order.\<close>

fun messageIDs :: "nat \<Rightarrow> ldap \<Rightarrow> int list" where
  "messageIDs 0 l = []"
| "messageIDs (Suc n) l = (let (i, l') = getNextMessageID l in i # messageIDs n l')"

text \<open>
  The variables one call of \<^verbatim>\<open>_sendSocket\<close> closes over: its arguments, the socket
  it wrote to, whether \<^verbatim>\<open>timer\<close> holds a timer, and \<^verbatim>\<open>sentEmitter\<close>.
\<close>

record pending =
  message :: request
  expect :: expect
  emitter :: "nat option"
  callback :: callback
  conn :: nat
  timer :: bool
  sentEmitter :: bool

record client =
  url :: "string option"
  socketPath :: "string option"
  timeout :: int
  idleTimeout :: int
  reconnect :: "(string \<times> int) list option"
  queuing :: bool
  queue :: RequestQueue
  socket :: "nat option"
  connected :: bool
  connecting :: bool
  retrying :: bool
  destroyed :: bool
  idleTimer :: bool
  sockets :: "ldap_socket list"
  closures :: "pending list"
  trace :: "event list"

definition emit :: "event list \<Rightarrow> client \<Rightarrow> client" where
  "emit evs c = c\<lparr> trace := trace c @ evs \<rparr>"

definition socket_at :: "client \<Rightarrow> nat \<Rightarrow> ldap_socket option" where
  "socket_at c sa = (if sa < length (sockets c) then Some (sockets c ! sa) else None)"

definition ldap_of :: "client \<Rightarrow> nat \<Rightarrow> ldap option" where
  "ldap_of c sa = (case socket_at c sa of None \<Rightarrow> None | Some s \<Rightarrow> ldap s)"

definition closure_at :: "client \<Rightarrow> nat \<Rightarrow> pending option" where
  "closure_at c a = (if a < length (closures c) then Some (closures c ! a) else None)"

definition update_socket :: "nat \<Rightarrow> (ldap_socket \<Rightarrow> ldap_socket) \<Rightarrow> client \<Rightarrow> client" where
  "update_socket sa f c =
     (if sa < length (sockets c) then c\<lparr> sockets := (sockets c)[sa := f (sockets c ! sa)] \<rparr> else c)"

definition update_ldap :: "nat \<Rightarrow> (ldap \<Rightarrow> ldap) \<Rightarrow> client \<Rightarrow> client" where
  "update_ldap sa f c = update_socket sa (\<lambda>s. s\<lparr> ldap := map_option f (ldap s) \<rparr>) c"

definition update_closure :: "nat \<Rightarrow> (pending \<Rightarrow> pending) \<Rightarrow> client \<Rightarrow> client" where
  "update_closure a f c =
     (if a < length (closures c) then c\<lparr> closures := (closures c)[a := f (closures c ! a)] \<rparr> else c)"

subsection \<open>Client\<close>

record reconnect_opts =
  initialDelay :: "int option"
  maxDelay :: "int option"
  failAfter :: "int option"

record client_opts =
  o_url :: "string option"
  o_socketPath :: "string option"
  o_timeout :: "int option"
  o_idleTimeout :: "int option"
  o_reconnect :: "reconnect_opts option"
  o_queuing :: "bool option"
  o_queueSize :: "int option"
  o_queueTimeout :: "int option"

text \<open>\<^verbatim>\<open>parseInt((v || d), 10)\<close> for a \<open>v\<close> that is undefined or an integer.\<close>

definition int_or :: "int option \<Rightarrow> int \<Rightarrow> int" where
  "int_or v d = (case v of None \<Rightarrow> d | Some n \<Rightarrow> if n \<noteq> 0 then n else d)"

text \<open>
  \<^verbatim>\<open>_connect\<close>: unless a connection is being made, configure the retry of the
  backoff library and start it. \<^verbatim>\<open>this.reconnect\<close> is an object, and reading a
  property it does not have gives undefined. \<open>RetryStart\<close> records the strategy set
  (none for a client without reconnect) and the number given to \<^verbatim>\<open>failAfter\<close>,
  \<open>None\<close> for Infinity.
\<close>

definition connect :: "client \<Rightarrow> client" where
  "connect c =
     (if connecting c then c
      else
        (let (strategy, fail) =
               (case reconnect c of
                  Some r \<Rightarrow>
                    (Some (ExponentialStrategy (map_of r ''minDelay'') (map_of r ''maxDelay'')),
                     (case map_of r ''failAfter'' of
                        None \<Rightarrow> None
                      | Some n \<Rightarrow> if n \<noteq> 0 then Some n else None))
                | None \<Rightarrow> (None, Some 1))
         in emit [RetryStart strategy fail] (c\<lparr> connecting := True, retrying := True \<rparr>)))"

definition Client :: "client_opts \<Rightarrow> client" where
  "Client options =
     (let q = new_RequestQueue (Some \<lparr> opt_size = Some (int_or (o_queueSize options) 0),
                                        opt_timeout = Some (int_or (o_queueTimeout options) 0) \<rparr>);
          queuing' = (case o_queuing options of None \<Rightarrow> True | Some b \<Rightarrow> b)
      in connect
        \<lparr> url = o_url options,
          socketPath = o_socketPath options,
          timeout = int_or (o_timeout options) 0,
          idleTimeout = int_or (o_idleTimeout options) 0,
          reconnect =
            (case o_reconnect options of
               None \<Rightarrow> None
             | Some r \<Rightarrow>
                 Some [(''initialDelay'', int_or (initialDelay r) 100),
                       (''maxDelay'', int_or (maxDelay r) 10000),
                       (''failAfter'', int_or (failAfter r) 0)]),
          queuing = queuing',
          queue = (if queuing' then q else freeze q),
          socket = None,
          connected = False,
          connecting = False,
          retrying = False,
          destroyed = False,
          idleTimer = False,
          sockets = [],
          closures = [],
          trace = [] \<rparr>)"

text \<open>
  Of \<^verbatim>\<open>connectSocket\<close>, the new socket object with what \<^verbatim>\<open>initSocket\<close> stores in
  it; the connect timer is left out. The \<^verbatim>\<open>id\<close> is \<^verbatim>\<open>self.url ? self.url.href :
  self.socketPath\<close>, and \<^verbatim>\<open>onConnect\<close> (below) puts the number of the connection
  before it.
\<close>

definition connectSocket :: "client \<Rightarrow> nat \<times> client" where
  "connectSocket c =
     (length (sockets c),
      c\<lparr> sockets := sockets c @
            [\<lparr> ldap = Some (initSocket (case url c of Some u \<Rightarrow> u
                                          | None \<Rightarrow> (case socketPath c of Some p \<Rightarrow> p | None \<Rightarrow> ''false''))),
               unbindMessageID = None, writable = True, write_raises = None \<rparr>] \<rparr>)"

text \<open>Of \<^verbatim>\<open>setupClient\<close>, for a client with no setup listener,
  \<^verbatim>\<open>self.socket = socket\<close>.\<close>

definition setupClient :: "nat \<Rightarrow> client \<Rightarrow> client" where
  "setupClient sa c = c\<lparr> socket := Some sa \<rparr>"

text \<open>
  \<^verbatim>\<open>nextClientId\<close>: \<^verbatim>\<open>if (++CLIENT_ID === MAX_MSGID) return 1; return CLIENT_ID;\<close>
  The counter \<^verbatim>\<open>CLIENT_ID\<close> is a variable of the module, 0 when the module is
  loaded: it is given as \<open>g\<close>, and the result is the number returned and the counter
  after the call. The branch that returns 1 leaves the counter as incremented.
\<close>

definition nextClientId :: "int \<Rightarrow> int \<times> int" where
  "nextClientId g = (if g + 1 = MAX_MSGID then (1, g + 1) else (g + 1, g + 1))"

text \<open>The decimal digits of a number, as \<^verbatim>\<open>+\<close> writes an integer below
  \<open>10^21\<close> into a string.\<close>

fun decimal :: "nat \<Rightarrow> string" where
  "decimal n =
     (if n < 10 then [''0123456789'' ! n]
      else decimal (n div 10) @ [''0123456789'' ! (n mod 10)])"

declare decimal.simps [simp del]

definition number_string :: "int \<Rightarrow> string" where
  "number_string i = (if i < 0 then ''-'' @ decimal (nat (- i)) else decimal (nat i))"

text \<open>
  \<^verbatim>\<open>onConnect\<close>, for the socket at \<open>sa\<close>:
  \<^verbatim>\<open>socket.ldap.id = nextClientId() + '__' + socket.ldap.id\<close>, then
  \<^verbatim>\<open>setupClient\<close>. The result is the counter \<^verbatim>\<open>CLIENT_ID\<close> after the call, and
  the client.
\<close>

definition onConnect :: "int \<Rightarrow> nat \<Rightarrow> client \<Rightarrow> int \<times> client" where
  "onConnect g sa c =
     (let (i, g') = nextClientId g
      in (g', setupClient sa
                (update_ldap sa (\<lambda>l. l\<lparr> ldap_id := number_string i @ ''__'' @ ldap_id l \<rparr>) c)))"

subsection \<open>\<^verbatim>\<open>_updateIdle\<close>\<close>

text \<open>
  \<open>idleTimer\<close> says whether \<^verbatim>\<open>this._idleTimer\<close> holds a timer. The socket that
  \<^verbatim>\<open>this.socket\<close> names always has its \<^verbatim>\<open>ldap\<close>, since \<^verbatim>\<open>_onClose\<close> clears
  \<^verbatim>\<open>this.socket\<close> before it deletes it; \<open>isIdle\<close> is false in the other case.
\<close>

definition isIdle :: "bool \<Rightarrow> client \<Rightarrow> bool" where
  "isIdle disable c =
     (\<not> disable \<and>
      (case socket c of
         None \<Rightarrow> False
       | Some sa \<Rightarrow> connected c \<and>
           (case ldap_of c sa of None \<Rightarrow> False | Some l \<Rightarrow> ldap_messages l = [])))"

definition updateIdle :: "bool \<Rightarrow> client \<Rightarrow> client" where
  "updateIdle override c =
     (if idleTimeout c = 0 then c
      else if isIdle override c
           then (if \<not> idleTimer c then c\<lparr> idleTimer := True \<rparr> else c)
           else (if idleTimer c then c\<lparr> idleTimer := False \<rparr> else c))"

subsection \<open>\<^verbatim>\<open>_sendSocket\<close> and the functions it defines\<close>

text \<open>
  \<^verbatim>\<open>_done(event, obj)\<close>: with an emitter, an error that comes before the emitter was
  handed over goes to the callback, and every other event is emitted; without one, the
  callback is called.
\<close>

definition done_ev :: "pending \<Rightarrow> string \<Rightarrow> jsarg \<Rightarrow> event list" where
  "done_ev p ev obj =
     (case emitter p of
        Some em \<Rightarrow>
          (if ev = ''error'' \<and> \<not> sentEmitter p then invoke (callback p) [obj]
           else (if ev = ''error'' then [EmitterRemoveAllListeners em ''end''] else []) @
                (if ev = ''end'' then [EmitterRemoveAllListeners em ''error''] else []) @
                [EmitterEmit em ev obj])
      | None \<Rightarrow>
          (if ev = ''error'' then invoke (callback p) [obj]
           else invoke (callback p) [ANull, obj]))"

text \<open>\<^verbatim>\<open>cookie && cookie.length > 0\<close>\<close>

definition has_cookie :: "bytes option \<Rightarrow> bool" where
  "has_cookie ck = (case ck of None \<Rightarrow> False | Some b \<Rightarrow> length b > 0)"

text \<open>
  The loop over \<^verbatim>\<open>message.controls\<close>: at the first \<^verbatim>\<open>PagedResultsControl\<close> of
  the request the cookie is stored and the loop is left (\<open>Some\<close> of the controls as
  they are then); \<open>None\<close> when the request has no such control.
\<close>

fun update_request_cookie :: "bytes option \<Rightarrow> control list \<Rightarrow> control list option" where
  "update_request_cookie ck [] = None"
| "update_request_cookie ck (PagedResultsControl sz old # rest) =
     Some (PagedResultsControl sz ck # rest)"
| "update_request_cookie ck (OtherControl oid # rest) =
     map_option (\<lambda>cs. OtherControl oid # cs) (update_request_cookie ck rest)"

text \<open>
  The loop over \<^verbatim>\<open>msg.controls\<close>: for each \<^verbatim>\<open>PagedResultsControl\<close> of the
  response that has a cookie, the loop above is run; the first time it stores the
  cookie, the request is to be written again.
\<close>

fun paged_resend :: "control list \<Rightarrow> control list \<Rightarrow> control list option" where
  "paged_resend [] req_controls = None"
| "paged_resend (PagedResultsControl sz ck # rest) req_controls =
     (if has_cookie ck
      then (case update_request_cookie ck req_controls of
              Some cs \<Rightarrow> Some cs
            | None \<Rightarrow> paged_resend rest req_controls)
      else paged_resend rest req_controls)"
| "paged_resend (OtherControl oid # rest) req_controls = paged_resend rest req_controls"

text \<open>
  \<^verbatim>\<open>_continuePagedSearch(msg)\<close> in the closure at address \<open>a\<close>: whether the search
  was continued, and the client.
\<close>

definition continuePagedSearch :: "nat \<Rightarrow> message \<Rightarrow> client \<Rightarrow> bool \<times> client" where
  "continuePagedSearch a msg c =
     (case closure_at c a of
        None \<Rightarrow> (False, c)
      | Some p \<Rightarrow>
          (case msg_controls msg of
             None \<Rightarrow> (False, c)
           | Some res_controls \<Rightarrow>
               (case paged_resend res_controls (controls (message p)) of
                  None \<Rightarrow> (False, c)
                | Some cs \<Rightarrow>
                    (let c1 = update_closure a (\<lambda>p. p\<lparr> message := (message p)\<lparr> controls := cs \<rparr> \<rparr>) c
                     in case socket_at c1 (conn p) of
                          None \<Rightarrow> (False, emit [Uncaught (TypeError ''conn'')] c1)
                        | Some s \<Rightarrow>
                            (case write_raises s of
                               None \<Rightarrow>
                                 (True, emit [SocketWrite (conn p) ((message p)\<lparr> controls := cs \<rparr>)] c1)
                             | Some e \<Rightarrow>
                                 (False,
                                  emit ((if timer p then [ClearTimeout a] else []) @
                                        invoke (callback p) [AErr e]) c1))))))"

text \<open>
  \<^verbatim>\<open>expect.indexOf(msg.status) !== -1\<close>. On an array, \<^verbatim>\<open>indexOf\<close> compares with
  \<^verbatim>\<open>===\<close>, so a string is never found among numbers. On a string it looks for the
  argument, made a string, as a substring: the decimal digits of a number do not occur
  in \<^verbatim>\<open>'abandon'\<close> or \<^verbatim>\<open>'unbind'\<close>.
\<close>

fun is_prefix :: "string \<Rightarrow> string \<Rightarrow> bool" where
  "is_prefix [] ys = True"
| "is_prefix (x # xs) [] = False"
| "is_prefix (x # xs) (y # ys) = (x = y \<and> is_prefix xs ys)"

fun occurs_in :: "string \<Rightarrow> string \<Rightarrow> bool" where
  "occurs_in needle [] = (needle = [])"
| "occurs_in needle (y # ys) = (is_prefix needle (y # ys) \<or> occurs_in needle ys)"

fun status_expected :: "expect \<Rightarrow> status \<Rightarrow> bool" where
  "status_expected (ExpectCodes codes) (NumStatus n) = (n \<in> set codes)"
| "status_expected (ExpectCodes codes) (StrStatus s) = False"
| "status_expected ExpectAbandon (StrStatus s) = occurs_in s ''abandon''"
| "status_expected ExpectUnbind (StrStatus s) = occurs_in s ''unbind''"
| "status_expected ExpectAbandon (NumStatus n) = False"
| "status_expected ExpectUnbind (NumStatus n) = False"

text \<open>
  \<^verbatim>\<open>messageCallback(msg)\<close> of the closure at address \<open>a\<close>. Deleting from the table
  and \<^verbatim>\<open>_updateIdle\<close> come before the completion. The table is the one of the
  closure's own socket, which has it as long as a continuation can be called:
  \<^verbatim>\<open>_onClose\<close> deletes \<^verbatim>\<open>socket.ldap\<close> after it has called them all.
\<close>

definition messageCallback :: "nat \<Rightarrow> message \<Rightarrow> client \<Rightarrow> client" where
  "messageCallback a msg c =
     (case closure_at c a of
        None \<Rightarrow> c
      | Some p \<Rightarrow>
          (let c1 = (if timer p then emit [ClearTimeout a] c else c)
           in if expect p = ExpectAbandon then emit (done_ev p ''end'' ANull) c1
              else
                (case msg of
                   SearchEntry x cs \<Rightarrow> emit (done_ev p ''searchEntry'' (AMsg msg)) c1
                 | SearchReference x cs \<Rightarrow> emit (done_ev p ''searchReference'' (AMsg msg)) c1
                 | _ \<Rightarrow>
                     (let (continued, c2) = continuePagedSearch a msg c1
                      in if continued then c2
                         else
                           (let c3 = update_ldap (conn p)
                                       (\<lambda>l. l\<lparr> ldap_messages :=
                                                 table_delete (messageID (message p)) (ldap_messages l) \<rparr>) c2;
                                c4 = updateIdle False c3
                            in case msg of
                                 LDAPResult st em cs \<Rightarrow>
                                   (if \<not> status_expected (expect p) st
                                    then emit (done_ev p ''error'' (AErr (getError msg))) c4
                                    else emit (done_ev p ''end'' (AMsg msg)) c4)
                               | ErrorObject e \<Rightarrow> emit (done_ev p ''error'' (AErr e)) c4
                               | OtherMessage ty cs \<Rightarrow>
                                   emit (done_ev p ''error'' (AErr (ProtocolError ty))) c4
                               | _ \<Rightarrow> c4)))))"

text \<open>
  \<^verbatim>\<open>onRequestTimeout\<close> of the closure at address \<open>a\<close>: what the table holds under
  the request's identifier is called with a result made here.
\<close>

definition request_timeout_result :: message where
  "request_timeout_result = LDAPResult (NumStatus 80) ''request timeout (client interrupt)'' []"

definition onRequestTimeout :: "nat \<Rightarrow> client \<Rightarrow> client" where
  "onRequestTimeout a c =
     (case closure_at c a of
        None \<Rightarrow> c
      | Some p \<Rightarrow>
          (let c1 = emit [ClientEmit ''timeout''] c
           in case ldap_of c1 (conn p) of
                None \<Rightarrow> emit [Uncaught (TypeError ''conn.ldap is undefined'')] c1
              | Some l \<Rightarrow>
                  (case map_of (ldap_messages l) (messageID (message p)) of
                     None \<Rightarrow> c1
                   | Some a' \<Rightarrow> messageCallback a' request_timeout_result c1)))"

text \<open>
  \<^verbatim>\<open>writeCallback\<close> of the closure at address \<open>a\<close>. \<^verbatim>\<open>message.id\<close> is the
  getter of lib/messages/message.js for \<^verbatim>\<open>messageID\<close>.
\<close>

definition writeCallback :: "nat \<Rightarrow> client \<Rightarrow> client" where
  "writeCallback a c =
     (case closure_at c a of
        None \<Rightarrow> c
      | Some p \<Rightarrow>
          (if expect p = ExpectAbandon then emit (invoke (callback p) [ANull]) c
           else if expect p = ExpectUnbind
           then emit [SocketEnd (conn p)]
                  ((update_socket (conn p)
                      (\<lambda>s. s\<lparr> unbindMessageID := Some (messageID (message p)) \<rparr>) c)
                   \<lparr> connected := False \<rparr>)
           else (case emitter p of
                   Some em \<Rightarrow>
                     emit (invoke (callback p) [ANull, AEmitter em])
                       (update_closure a (\<lambda>p. p\<lparr> sentEmitter := True \<rparr>) c)
                 | None \<Rightarrow> c)))"

text \<open>The body of \<^verbatim>\<open>_sendSocket\<close>.\<close>

definition sendSocket :: "send_call \<Rightarrow> client \<Rightarrow> client" where
  "sendSocket call c =
     (case socket c of
        None \<Rightarrow> emit [Uncaught (TypeError ''conn is null'')] c
      | Some sa \<Rightarrow>
          (case socket_at c sa of
             None \<Rightarrow> emit [Uncaught (TypeError ''conn is null'')] c
           | Some s \<Rightarrow>
               (case ldap s of
                  None \<Rightarrow> emit [Uncaught (TypeError ''conn.ldap is undefined'')] c
                | Some l \<Rightarrow>
                    (let (mid, l') = getNextMessageID l;
                         a = length (closures c);
                         msg = (sc_message call)\<lparr> messageID := mid \<rparr>;
                         armed = (timeout c \<noteq> 0);
                         p = \<lparr> message = msg, expect = sc_expect call, emitter = sc_emitter call,
                               callback = sc_callback call, conn = sa, timer = armed,
                               sentEmitter = False \<rparr>;
                         c1 = update_ldap sa
                                (\<lambda>_. l'\<lparr> ldap_messages := table_set mid a (ldap_messages l') \<rparr>)
                                (c\<lparr> closures := closures c @ [p] \<rparr>);
                         c2 = updateIdle True c1;
                         c3 = (if armed then emit [SetTimeout a (timeout c)] c2 else c2)
                     in case write_raises s of
                          None \<Rightarrow> emit [SocketWrite sa msg] c3
                        | Some e \<Rightarrow>
                            emit ((if armed then [ClearTimeout a] else []) @
                                  invoke (sc_callback call) [AErr e]) c3))))"

text \<open>The router: the parser's \<^verbatim>\<open>'message'\<close> listener on the socket at \<open>sa\<close>.\<close>

definition onMessage :: "nat \<Rightarrow> int \<Rightarrow> message \<Rightarrow> client \<Rightarrow> client" where
  "onMessage sa mid msg c =
     (case ldap_of c sa of
        None \<Rightarrow> emit [Uncaught (TypeError ''socket.ldap is undefined'')] c
      | Some l \<Rightarrow>
          (case map_of (ldap_messages l) mid of
             None \<Rightarrow> c
           | Some a \<Rightarrow> messageCallback a msg c))"

subsection \<open>\<^verbatim>\<open>_send\<close> and \<^verbatim>\<open>_flushQueue\<close>\<close>

fun fold_option :: "('a \<Rightarrow> 's \<Rightarrow> 's option) \<Rightarrow> 'a list \<Rightarrow> 's \<Rightarrow> 's option" where
  "fold_option f [] s = Some s"
| "fold_option f (x # xs) s = (case f x s of None \<Rightarrow> None | Some s' \<Rightarrow> fold_option f xs s')"

definition socket_writable :: "client \<Rightarrow> bool" where
  "socket_writable c =
     (case socket c of
        None \<Rightarrow> False
      | Some sa \<Rightarrow> (case socket_at c sa of None \<Rightarrow> False | Some s \<Rightarrow> writable s))"

text \<open>
  \<^verbatim>\<open>_send\<close> calls \<^verbatim>\<open>_flushQueue\<close>, which calls \<^verbatim>\<open>_send\<close> on each request taken
  out of the queue. The first argument bounds the depth of these calls; \<open>None\<close> says
  that the bound was reached.
\<close>

primrec send_fuel :: "nat \<Rightarrow> send_call \<Rightarrow> bool \<Rightarrow> client \<Rightarrow> client option" where
  "send_fuel 0 call bypass c = None"
| "send_fuel (Suc n) call bypass c =
     (if bypass \<and> socket_writable c then Some (sendSocket call c)
      else if socket c = None \<or> \<not> connected c then
        (let (accepted, q') = enqueue call (queue c);
             c1 = c\<lparr> queue := q' \<rparr>;
             c2 = (if accepted then c1
                   else emit (invoke (sc_callback call) [AErr (JsError ''unable to enqueue request'')]) c1)
         in Some (if reconnect c2 \<noteq> None then connect c2 else c2))
      else
        (let (items, q') = flush (queue c)
         in case fold_option (\<lambda>e. send_fuel n e False) items (c\<lparr> queue := q' \<rparr>) of
              None \<Rightarrow> None
            | Some c1 \<Rightarrow> Some (sendSocket call c1)))"

text \<open>
  \<^verbatim>\<open>flush\<close> empties the queue before it calls \<^verbatim>\<open>_send\<close> on the requests, and
  \<^verbatim>\<open>_sendSocket\<close> queues nothing: a call made from a flush finds nothing to flush.
  So two levels are all that a call needs (\<open>send_fuel_enough\<close> below).
\<close>

definition client_send :: "send_call \<Rightarrow> bool \<Rightarrow> client \<Rightarrow> client option" where
  "client_send call bypass c = send_fuel 2 call bypass c"

definition flushQueue :: "client \<Rightarrow> client option" where
  "flushQueue c =
     (let (items, q') = flush (queue c)
      in fold_option (\<lambda>e. client_send e False) items (c\<lparr> queue := q' \<rparr>))"

subsection \<open>\<^verbatim>\<open>_onClose\<close>, \<^verbatim>\<open>unbind\<close>, \<^verbatim>\<open>destroy\<close> and the end of a retry\<close>

text \<open>
  One step of the \<^verbatim>\<open>forEach\<close> of \<^verbatim>\<open>_onClose\<close>, for the key \<open>msgid\<close> of the table
  of the socket at \<open>sa\<close>. The table holds functions only, so the branch for an emitter
  stored in the table is never taken.
\<close>

definition onClose_entry :: "nat \<Rightarrow> int \<Rightarrow> client \<Rightarrow> client" where
  "onClose_entry sa msgid c =
     (case socket_at c sa of
        None \<Rightarrow> c
      | Some s \<Rightarrow>
          (case ldap s of
             None \<Rightarrow> c
           | Some l \<Rightarrow>
               (let err = (if unbindMessageID s \<noteq> Some msgid
                           then ErrorObject (ConnectionError (ldap_id l @ '' closed''))
                           else UnbindResponse)
                in case map_of (ldap_messages l) msgid of
                     None \<Rightarrow> c
                   | Some a \<Rightarrow>
                       messageCallback a err
                         (update_ldap sa
                            (\<lambda>l. l\<lparr> ldap_messages := table_delete msgid (ldap_messages l) \<rparr>) c))))"

definition onClose :: "bool \<Rightarrow> client \<Rightarrow> client" where
  "onClose had_err c =
     (case socket c of
        None \<Rightarrow> emit [Uncaught (TypeError ''socket is null'')] c
      | Some sa \<Rightarrow>
          (let c1 = emit [ClientEmit ''close''] (c\<lparr> socket := None, connected := False \<rparr>)
           in case ldap_of c1 sa of
                None \<Rightarrow> emit [Uncaught (TypeError ''socket.ldap is undefined'')] c1
              | Some l \<Rightarrow>
                  (let c2 = fold (onClose_entry sa) (map fst (ldap_messages l)) c1;
                       c3 = update_socket sa (\<lambda>s. s\<lparr> ldap := None \<rparr>) c2
                   in if had_err \<and> reconnect c3 \<noteq> None then connect c3 else c3)))"

text \<open>\<^verbatim>\<open>unbind\<close> once its callback is known to be a function.\<close>

definition unbind_with :: "callback \<Rightarrow> client \<Rightarrow> client option" where
  "unbind_with cb c =
     (if socket c = None then Some (emit (invoke cb []) c)
      else client_send
             \<lparr> sc_message = \<lparr> messageID = 0, controls = [], protocolOp = UnbindRequest \<rparr>,
               sc_expect = ExpectUnbind, sc_emitter = None, sc_callback = cb \<rparr>
             False c)"

definition unbind :: "jsval \<Rightarrow> client \<Rightarrow> error + client option" where
  "unbind cb c =
     (if \<not> truthy cb then Inr (unbind_with Noop c)
      else (case cb of
              Function f \<Rightarrow> Inr (unbind_with (UserCallback f) c)
            | _ \<Rightarrow> Inl (TypeError ''callback must be a function'')))"

text \<open>
  \<^verbatim>\<open>this.emit('destroy')\<close>: the listener that \<^verbatim>\<open>_connect\<close> registered aborts its
  retry if that is running.
\<close>

definition emit_destroy :: "client \<Rightarrow> client" where
  "emit_destroy c =
     (if retrying c then emit [ClientEmit ''destroy'', RetryAbort] (c\<lparr> retrying := False \<rparr>)
      else emit [ClientEmit ''destroy''] c)"

definition destroy :: "client \<Rightarrow> client option" where
  "destroy c =
     (let c1 = c\<lparr> destroyed := True, queue := freeze (queue c) \<rparr>;
          (items, q') = flush (queue c1);
          c2 = emit (concat (map (\<lambda>e. invoke (sc_callback e) [AErr (JsError ''client destroyed'')])
                               items))
                 (c1\<lparr> queue := q' \<rparr>)
      in case unbind_with Noop c2 of
           None \<Rightarrow> None
         | Some c3 \<Rightarrow> Some (emit_destroy c3))"

text \<open>The function \<^verbatim>\<open>_connect\<close> gives to \<^verbatim>\<open>backoff.call\<close>, called when the retry ends.\<close>

definition retry_done :: "error option \<Rightarrow> client \<Rightarrow> client option" where
  "retry_done err c =
     (let c1 = c\<lparr> connecting := False, retrying := False \<rparr>
      in case err of
           None \<Rightarrow> flushQueue (emit [ClientEmit ''connect''] (c1\<lparr> connected := True \<rparr>))
         | Some (ConnectionError m) \<Rightarrow> Some (emit [ClientEmit ''connectTimeout''] c1)
         | Some e \<Rightarrow> Some (emit [ClientEmit ''error''] c1))"

subsection \<open>The public methods\<close>

text \<open>
  \<^verbatim>\<open>dn.parse\<close>, \<^verbatim>\<open>RDN.toString\<close> and \<^verbatim>\<open>filters.parseString\<close> are declared in
  lib/dn and lib/filters; the methods take them as parameters. A method checks and
  converts its arguments and ends in \<^verbatim>\<open>return this._send(...)\<close>: its value here is
  the exception it raises, or the arguments of that call.
\<close>

fun all_controls :: "jsval list \<Rightarrow> control list option" where
  "all_controls [] = Some []"
| "all_controls (ControlObj x # rest) = map_option (\<lambda>cs. x # cs) (all_controls rest)"
| "all_controls (v # rest) = None"

definition validateControls :: "jsval \<Rightarrow> error + control list" where
  "validateControls ctl =
     (case ctl of
        Array xs \<Rightarrow>
          (case all_controls xs of
             None \<Rightarrow> Inl (TypeError ''controls must be [Control]'')
           | Some cs \<Rightarrow> Inr cs)
      | ControlObj x \<Rightarrow> Inr [x]
      | _ \<Rightarrow> Inl (TypeError ''controls must be [Control]''))"

text \<open>
  \<^verbatim>\<open>if (typeof (controls) === 'function') { callback = controls; controls = []; }
    else { controls = validateControls(controls); }\<close>
\<close>

definition controls_and_callback :: "jsval \<Rightarrow> jsval \<Rightarrow> error + (control list \<times> jsval)" where
  "controls_and_callback ctl cb =
     (case ctl of
        Function f \<Rightarrow> Inr ([], Function f)
      | _ \<Rightarrow> (case validateControls ctl of Inl e \<Rightarrow> Inl e | Inr cs \<Rightarrow> Inr (cs, cb)))"

definition new_request :: "control list \<Rightarrow> protocolOp \<Rightarrow> request" where
  "new_request cs op = \<lparr> messageID = 0, controls = cs, protocolOp = op \<rparr>"

text \<open>\<^verbatim>\<open>typeof v === 'function'\<close> and \<^verbatim>\<open>typeof v === 'string'\<close>: the function's
  number, or the string, if \<open>v\<close> is one.\<close>

fun as_function :: "jsval \<Rightarrow> nat option" where
  "as_function (Function f) = Some f"
| "as_function v = None"

fun as_string :: "jsval \<Rightarrow> string option" where
  "as_string (Str s) = Some s"
| "as_string v = None"

fun as_number :: "jsval \<Rightarrow> int option" where
  "as_number (Num n) = Some n"
| "as_number v = None"

definition abandon :: "jsval \<Rightarrow> jsval \<Rightarrow> jsval \<Rightarrow> error + send_call" where
  "abandon mid ctl cb =
     (case as_number mid of
        None \<Rightarrow> Inl (AssertionError ''messageID (number) is required'')
      | Some n \<Rightarrow>
          (case controls_and_callback ctl cb of
             Inl e \<Rightarrow> Inl e
           | Inr (cs, cb') \<Rightarrow>
               (case as_function cb' of
                  None \<Rightarrow> Inl (AssertionError ''callback (func) is required'')
                | Some f \<Rightarrow>
                    Inr \<lparr> sc_message = new_request cs (AbandonRequest n),
                          sc_expect = ExpectAbandon, sc_emitter = None,
                          sc_callback = UserCallback f \<rparr>)))"

definition compare ::
  "(string \<Rightarrow> error + dn) \<Rightarrow> jsval \<Rightarrow> jsval \<Rightarrow> jsval \<Rightarrow> jsval \<Rightarrow> jsval \<Rightarrow> error + send_call" where
  "compare parse name attr val ctl cb =
     (case as_string name of
        None \<Rightarrow> Inl (AssertionError ''name (string) is required'')
      | Some n \<Rightarrow>
          (case as_string attr of
             None \<Rightarrow> Inl (AssertionError ''attr (string) is required'')
           | Some a \<Rightarrow>
               (case as_string val of
                  None \<Rightarrow> Inl (AssertionError ''value (string) is required'')
                | Some v \<Rightarrow>
                    (case controls_and_callback ctl cb of
                       Inl e \<Rightarrow> Inl e
                     | Inr (cs, cb') \<Rightarrow>
                         (case as_function cb' of
                            None \<Rightarrow> Inl (AssertionError ''callback (func) is required'')
                          | Some f \<Rightarrow>
                              (case parse n of
                                 Inl e \<Rightarrow> Inl e
                               | Inr d \<Rightarrow>
                                   Inr \<lparr> sc_message = new_request cs (CompareRequest d a v),
                                         sc_expect = ExpectCodes CMP_EXPECT, sc_emitter = None,
                                         sc_callback = CompareCallback f \<rparr>))))))"

text \<open>
  \<^verbatim>\<open>newDN.rdns.shift()\<close> takes the first RDN out of \<^verbatim>\<open>newDN\<close>; on an empty array
  it returns undefined, and calling \<^verbatim>\<open>toString\<close> on that raises a TypeError. The
  parser of lib/dn returns no DN without an RDN, so that branch is there for the
  parameter \<open>parse\<close> only.
\<close>

definition modifyDN ::
  "(string \<Rightarrow> error + dn) \<Rightarrow> (rdn \<Rightarrow> string) \<Rightarrow> jsval \<Rightarrow> jsval \<Rightarrow> jsval \<Rightarrow> jsval
     \<Rightarrow> error + send_call" where
  "modifyDN parse rdn_toString name newName ctl cb =
     (case as_string name of
        None \<Rightarrow> Inl (TypeError ''name (string) required'')
      | Some n \<Rightarrow>
          (case as_string newName of
             None \<Rightarrow> Inl (TypeError ''newName (string) required'')
           | Some nn \<Rightarrow>
               (case controls_and_callback ctl cb of
                  Inl e \<Rightarrow> Inl e
                | Inr (cs, cb') \<Rightarrow>
                    (case as_function cb' of
                       None \<Rightarrow> Inl (TypeError ''callback (function) required'')
                     | Some f \<Rightarrow>
                         (case parse n of
                            Inl e \<Rightarrow> Inl e
                          | Inr DN \<Rightarrow>
                              (case parse nn of
                                 Inl e \<Rightarrow> Inl e
                               | Inr newDN \<Rightarrow>
                                   (let req = \<lparr> entry = DN, deleteOldRdn = True,
                                                newRdn = None, newSuperior = None \<rparr>;
                                        call = (\<lambda>r. \<lparr> sc_message = new_request cs (ModifyDNRequest r),
                                                      sc_expect = ExpectCodes [LDAP_SUCCESS],
                                                      sc_emitter = None,
                                                      sc_callback = UserCallback f \<rparr>)
                                    in if length newDN \<noteq> 1
                                       then (case newDN of
                                               [] \<Rightarrow> Inl (TypeError ''undefined has no method toString'')
                                             | r # rest \<Rightarrow>
                                                 (case parse (rdn_toString r) of
                                                    Inl e \<Rightarrow> Inl e
                                                  | Inr d \<Rightarrow>
                                                      Inr (call (req\<lparr> newRdn := Some d,
                                                                     newSuperior := Some rest \<rparr>))))
                                       else Inr (call (req\<lparr> newRdn := Some newDN \<rparr>)))))))))"

text \<open>
  The first statement of \<^verbatim>\<open>search\<close> after the check of \<^verbatim>\<open>base\<close>: what
  \<^verbatim>\<open>options\<close>, \<^verbatim>\<open>controls\<close> and \<^verbatim>\<open>callback\<close> are after it.
\<close>

definition search_options ::
  "(string \<Rightarrow> error + ldap_filter) \<Rightarrow> jsval \<Rightarrow> jsval \<Rightarrow> jsval \<Rightarrow> error + (jsval \<times> jsval \<times> jsval)" where
  "search_options parseString options ctl cb =
     (case options of
        Array xs \<Rightarrow> Inr (Object [], options, cb)
      | ControlObj x \<Rightarrow> Inr (Object [], options, cb)
      | Function f \<Rightarrow>
          Inr (Object [(''filter'', FilterObj (PresenceFilter ''objectclass''))], Array [], options)
      | Str s \<Rightarrow>
          (case parseString s of
             Inl e \<Rightarrow> Inl e
           | Inr f \<Rightarrow> Inr (Object [(''filter'', FilterObj f)], ctl, cb))
      | Undefined \<Rightarrow> Inl (TypeError ''options (object) required'')
      | Bool b \<Rightarrow> Inl (TypeError ''options (object) required'')
      | Num n \<Rightarrow> Inl (TypeError ''options (object) required'')
      | _ \<Rightarrow> Inr (options, ctl, cb))"

text \<open>
  The properties of \<^verbatim>\<open>options\<close>: reading one of \<^verbatim>\<open>null\<close> raises a TypeError
  (\<open>None\<close>), and a filter or DN object given as \<^verbatim>\<open>options\<close> is read as an object
  that has none of the properties of the options.
\<close>

fun option_props :: "jsval \<Rightarrow> (string \<times> jsval) list option" where
  "option_props (Object kvs) = Some kvs"
| "option_props Null = None"
| "option_props v = Some []"

text \<open>
  \<^verbatim>\<open>if (typeof (options.filter) === 'string') ... else if (!options.filter) ...
    else if (!filters.isFilter(options.filter)) throw ...\<close>
\<close>

definition option_filter :: "(string \<Rightarrow> error + ldap_filter) \<Rightarrow> jsval \<Rightarrow> error + ldap_filter" where
  "option_filter parseString v =
     (case v of
        Str s \<Rightarrow> parseString s
      | FilterObj f \<Rightarrow> Inr f
      | _ \<Rightarrow> if \<not> truthy v then Inr (PresenceFilter ''objectclass'')
             else Inl (TypeError ''options.filter (Filter) required''))"

text \<open>\<^verbatim>\<open>if (options.attributes) { if (!Array.isArray(options.attributes)) ... }\<close>\<close>

definition option_attributes :: "jsval \<Rightarrow> error + jsval" where
  "option_attributes a =
     (if truthy a
      then (case a of
              Array xs \<Rightarrow> Inr a
            | Str s \<Rightarrow> Inr (Array [Str s])
            | _ \<Rightarrow> Inl (TypeError ''options.attributes must be an Array of Strings''))
      else Inr a)"

definition is_base :: "jsval \<Rightarrow> bool" where
  "is_base base = (case base of Str s \<Rightarrow> True | DNObj d \<Rightarrow> True | _ \<Rightarrow> False)"

text \<open>\<^verbatim>\<open>typeof (base) === 'string' ? dn.parse(base) : base\<close>\<close>

definition base_dn :: "(string \<Rightarrow> error + dn) \<Rightarrow> jsval \<Rightarrow> error + dn" where
  "base_dn parse base =
     (case base of
        Str s \<Rightarrow> parse s
      | DNObj d \<Rightarrow> Inr d
      | _ \<Rightarrow> Inl (TypeError ''base (string) required''))"

definition search ::
  "(string \<Rightarrow> error + dn) \<Rightarrow> (string \<Rightarrow> error + ldap_filter) \<Rightarrow> nat \<Rightarrow>
     jsval \<Rightarrow> jsval \<Rightarrow> jsval \<Rightarrow> jsval \<Rightarrow> bool \<Rightarrow> error + (send_call \<times> bool)" where
  "search parse parseString new_emitter base options ctl cb bypass =
     (if \<not> is_base base then Inl (TypeError ''base (string) required'')
      else
        (case search_options parseString options ctl cb of
           Inl e \<Rightarrow> Inl e
         | Inr (options1, ctl1, cb1) \<Rightarrow>
             (case option_props options1 of
                None \<Rightarrow> Inl (TypeError ''Cannot read property filter of null'')
              | Some props \<Rightarrow>
                  (case option_filter parseString (get_prop props ''filter'') of
                     Inl e \<Rightarrow> Inl e
                   | Inr flt \<Rightarrow>
                       (case controls_and_callback ctl1 cb1 of
                          Inl e \<Rightarrow> Inl e
                        | Inr (cs, cb2) \<Rightarrow>
                            (case as_function cb2 of
                               None \<Rightarrow> Inl (TypeError ''callback (function) required'')
                             | Some f \<Rightarrow>
                                 (case option_attributes (get_prop props ''attributes'') of
                                    Inl e \<Rightarrow> Inl e
                                  | Inr attrs \<Rightarrow>
                                      (case base_dn parse base of
                                         Inl e \<Rightarrow> Inl e
                                       | Inr b \<Rightarrow>
                                           Inr (\<lparr> sc_message = new_request cs (SearchRequest
                                                    \<lparr> baseObject = b,
                                                      scope = js_or (get_prop props ''scope'') (Str ''base''),
                                                      search_filter = flt,
                                                      derefAliases = js_or (get_prop props ''derefAliases'')
                                                                       (Num NEVER_DEREF_ALIASES),
                                                      sizeLimit = js_or (get_prop props ''sizeLimit'') (Num 0),
                                                      timeLimit = js_or (get_prop props ''timeLimit'') (Num 10),
                                                      typesOnly = js_or (get_prop props ''typesOnly'') (Bool False),
                                                      attributes = js_or attrs (Array []) \<rparr>),
                                                   sc_expect = ExpectCodes [LDAP_SUCCESS],
                                                   sc_emitter = Some new_emitter,
                                                   sc_callback = UserCallback f \<rparr>, bypass)))))))))"

subsection \<open>What the entries of the request table receive when the transport closes\<close>

text \<open>
  What one step of the \<^verbatim>\<open>forEach\<close> of \<^verbatim>\<open>_onClose\<close> adds to the trace, for the entry
  under the identifier \<open>k\<close> whose continuation is the closure \<open>p\<close> at address \<open>a\<close>:
  \<^verbatim>\<open>messageCallback\<close> clears the timer; for an abandon it returns
  \<^verbatim>\<open>_done('end', null)\<close> before it looks at what it was given; otherwise it is
  given the connection error, or the Unbind response if \<open>k\<close> is
  \<^verbatim>\<open>unbindMessageID\<close>. That the steps of \<open>onClose_entry\<close> add this is
  \<open>onClose_loop\<close> below.
\<close>

definition onClose_entry_events ::
  "ldap_socket \<Rightarrow> ldap \<Rightarrow> int \<Rightarrow> nat \<Rightarrow> pending \<Rightarrow> event list" where
  "onClose_entry_events s l k a p =
     (if timer p then [ClearTimeout a] else []) @
     (if expect p = ExpectAbandon then done_ev p ''end'' ANull
      else if unbindMessageID s \<noteq> Some k
      then done_ev p ''error'' (AErr (ConnectionError (ldap_id l @ '' closed'')))
      else if expect p = ExpectUnbind then done_ev p ''end'' (AMsg UnbindResponse)
      else done_ev p ''error'' (AErr (getError UnbindResponse)))"


subsection \<open>Concrete clients\<close>

text \<open>
  Concrete inputs for the properties below: options, a client that has connected
  (its first attempt succeeded, the first connection since the module was loaded, with
  no setup listener), parsers of names that, as the parser of lib/dn does, take the
  empty string for a DN of one RDN with no attribute, and clients that have sent
  requests.
\<close>

abbreviation (input) opts_timeout :: client_opts where
  "opts_timeout \<equiv>
     \<lparr> o_url = Some ''ldap://localhost'', o_socketPath = None, o_timeout = Some 50,
       o_idleTimeout = None, o_reconnect = None, o_queuing = None, o_queueSize = None,
       o_queueTimeout = None \<rparr>"

abbreviation (input) connected_client :: "client_opts \<Rightarrow> client option" where
  "connected_client options \<equiv>
     retry_done None (snd (onConnect 0 0 (snd (connectSocket (Client options)))))"

abbreviation (input) parse_cn :: "string \<Rightarrow> error + dn" where
  "parse_cn \<equiv> (\<lambda>s. if s = [] then Inr [RDN []] else Inr [RDN [(''cn'', s)]])"

abbreviation (input) compare_sent :: "client" where
  "compare_sent \<equiv>
     the (case compare parse_cn (Str ''a'') (Str ''sn'') (Str ''x'') (Array []) (Function 7) of
            Inr call \<Rightarrow> Option.bind (connected_client opts_timeout) (client_send call False))"

abbreviation (input) abandon_sent :: "client" where
  "abandon_sent \<equiv>
     the (case abandon (Num 5) (Array []) (Function 7) of
            Inr call \<Rightarrow> Option.bind (connected_client opts_timeout) (client_send call False))"

abbreviation (input) opts_plain :: client_opts where
  "opts_plain \<equiv>
     \<lparr> o_url = Some ''ldap://localhost'', o_socketPath = None, o_timeout = None,
       o_idleTimeout = None, o_reconnect = None, o_queuing = None, o_queueSize = None,
       o_queueTimeout = None \<rparr>"


abbreviation (input) parse_filter :: "string \<Rightarrow> error + ldap_filter" where
  "parse_filter \<equiv> (\<lambda>s. Inr (ParsedFilter s))"

abbreviation (input) paged_search_sent :: client where
  "paged_search_sent \<equiv>
     writeCallback 0
       (the (case search parse_cn parse_filter 3 (Str ''o=test'') (Object [(''scope'', Str ''sub'')])
                    (ControlObj (PagedResultsControl 5 (Some []))) (Function 7) False of
               Inr (call, bypass) \<Rightarrow>
                 Option.bind (connected_client opts_plain) (client_send call bypass)))"

abbreviation (input) parse_commas :: "string \<Rightarrow> error + dn" where
  "parse_commas \<equiv>
     (\<lambda>s. if s = ''cn=a,o=b'' then Inr [RDN [(''cn'', ''a'')], RDN [(''o'', ''b'')]]
          else if s = ''cn=a'' then Inr [RDN [(''cn'', ''a'')]]
          else if s = ''cn=old,o=b'' then Inr [RDN [(''cn'', ''old'')], RDN [(''o'', ''b'')]]
          else if s = [] then Inr [RDN []]
          else Inl (JsError ''invalid DN''))"

abbreviation (input) rdn_string :: "rdn \<Rightarrow> string" where
  "rdn_string \<equiv> (\<lambda>r. case r of RDN ((a, v) # rest) \<Rightarrow> a @ ''='' @ v | RDN [] \<Rightarrow> [])"

abbreviation (input) opts_reconnect :: client_opts where
  "opts_reconnect \<equiv>
     \<lparr> o_url = Some ''ldap://localhost'', o_socketPath = None, o_timeout = None,
       o_idleTimeout = None,
       o_reconnect = Some \<lparr> initialDelay = None, maxDelay = None, failAfter = None \<rparr>,
       o_queuing = None, o_queueSize = None, o_queueTimeout = None \<rparr>"

abbreviation (input) destroyed_client :: client where
  "destroyed_client \<equiv> the (Option.bind (connected_client opts_reconnect) destroy)"

abbreviation (input) reconnected_after_unbind :: client where
  "reconnected_after_unbind \<equiv>
     the (case compare parse_cn (Str ''a'') (Str ''sn'') (Str ''x'') (Array []) (Function 7) of
            Inr cmp \<Rightarrow>
              Option.bind
                (Option.bind
                   (Option.bind (connected_client opts_reconnect) (unbind_with (UserCallback 8)))
                   (\<lambda>c. client_send cmp False (writeCallback 0 c)))
                (\<lambda>c. let (sa, c1) = connectSocket c in retry_done None (snd (onConnect 1 sa c1))))"

section \<open>Properties\<close>

subsection \<open>The message identifiers of a transport\<close>

lemma getNextMessageID_value:
  "getNextMessageID l =
     (if ldap_messageID l + 1 \<ge> 2147483647 then (1, l\<lparr> ldap_messageID := 1 \<rparr>)
      else (ldap_messageID l + 1, l\<lparr> ldap_messageID := ldap_messageID l + 1 \<rparr>))"
  by (simp add: getNextMessageID_def MAX_MSGID_def Let_def)

lemma getNextMessageID_step:
  assumes "ldap_messageID l = int c" and "c \<le> 2147483646"
  shows "fst (getNextMessageID l) = int (c mod 2147483646) + 1"
    and "ldap_messageID (snd (getNextMessageID l)) = int (c mod 2147483646 + 1)"
    and "c mod 2147483646 + 1 \<le> 2147483646"
  using assms by (auto simp: getNextMessageID_value)

text \<open>From a counter that holds \<open>c\<close>, the calls yield \<open>c + 1\<close>, \<open>c + 2\<close>, ... and start
  again at 1 after \<open>2^31 - 2\<close>.\<close>

lemma messageIDs_from:
  "ldap_messageID l = int c \<Longrightarrow> c \<le> 2147483646 \<Longrightarrow>
   messageIDs n l = map (\<lambda>k. int ((c + k) mod 2147483646) + 1) [0..<n]"
proof (induction n arbitrary: l c)
  case 0
  then show ?case by simp
next
  case (Suc n)
  obtain i l' where g: "getNextMessageID l = (i, l')" by (cases "getNextMessageID l")
  from getNextMessageID_step [OF Suc.prems] g
  have i: "i = int (c mod 2147483646) + 1"
    and l': "ldap_messageID l' = int (c mod 2147483646 + 1)"
    and b: "c mod 2147483646 + 1 \<le> 2147483646"
    by simp_all
  have "messageIDs n l' = map (\<lambda>k. int ((c mod 2147483646 + 1 + k) mod 2147483646) + 1) [0..<n]"
    by (rule Suc.IH [OF l' b])
  also have "\<dots> = map (\<lambda>k. int ((c + Suc k) mod 2147483646) + 1) [0..<n]"
  proof -
    have "(c mod 2147483646 + 1 + k) mod 2147483646 = (c + Suc k) mod 2147483646" for k
      by (metis add.assoc mod_add_left_eq plus_1_eq_Suc)
    then show ?thesis by simp
  qed
  finally have tl: "messageIDs n l' = map (\<lambda>k. int ((c + Suc k) mod 2147483646) + 1) [0..<n]" .
  show ?case
    unfolding map_upt_Suc using g i tl by simp
qed

lemma messageIDs_initSocket:
  "messageIDs n (initSocket ident) = map (\<lambda>k. int (k mod 2147483646) + 1) [0..<n]"
  using messageIDs_from [of "initSocket ident" 0 n] by (simp add: initSocket_def)

text \<open>
  C1, as the code has it. The counter of a new transport holds 0. The \<open>k\<close>-th call of
  \<^verbatim>\<open>getNextMessageID\<close>, counted from 0, yields \<open>k mod (2^31 - 2) + 1\<close>: the first call
  yields 1, the values grow by one up to and including \<open>2^31 - 2\<close>, and the call after
  the one that yielded \<open>2^31 - 2\<close> yields 1 again. No call yields 0 or \<open>2^31 - 1\<close>: every
  identifier lies in \<open>[1, 2^31 - 2]\<close>, and so in \<open>[1, 2^31 - 1]\<close>.
\<close>

theorem C1_messageID_sequence:
  "ldap_messageID (initSocket ident) = 0 \<and>
   messageIDs n (initSocket ident) = map (\<lambda>k. int (k mod 2147483646) + 1) [0..<n] \<and>
   (\<forall>i \<in> set (messageIDs n (initSocket ident)). 1 \<le> i \<and> i \<le> 2 ^ 31 - 2)"
proof -
  have "1 \<le> int (k mod 2147483646) + 1 \<and> int (k mod 2147483646) + 1 \<le> 2 ^ 31 - 2" for k :: nat
  proof -
    have "k mod 2147483646 < 2147483646" by simp
    then show ?thesis by simp
  qed
  moreover have "ldap_messageID (initSocket ident) = 0"
    by (simp add: initSocket_def)
  ultimately show ?thesis
    by (auto simp: messageIDs_initSocket)
qed

theorem C1_messageID_sequence_witness:
  "messageIDs 3 (initSocket ''ldap://localhost'') = [1, 2, 3] \<and>
   (1::int) \<le> 2 \<and> (2::int) \<le> 2 ^ 31 - 2"
proof -
  have a: "messageIDs 3 (initSocket ''ldap://localhost'') = map (\<lambda>k. int (k mod 2147483646) + 1) [0..<3]"
    and b: "\<forall>i \<in> set (messageIDs 3 (initSocket ''ldap://localhost'')). 1 \<le> i \<and> i \<le> 2 ^ 31 - 2"
    using C1_messageID_sequence [of "''ldap://localhost''" 3] by blast+
  have l: "messageIDs 3 (initSocket ''ldap://localhost'') = [1, 2, 3]"
    unfolding a by (simp add: upt_rec)
  from b l have "(1::int) \<le> 2 \<and> (2::int) \<le> 2 ^ 31 - 2" by simp
  with l show ?thesis by simp
qed

text \<open>
  C1 as stated fails: the claim has the identifiers grow up to and including
  \<open>2^31 - 1\<close>. The call number \<open>2^31 - 2\<close> yields \<open>2^31 - 2\<close>, and the next call yields 1;
  a counter that holds \<open>2^31 - 2\<close> is set back by \<^verbatim>\<open>getNextMessageID\<close>.
\<close>

theorem C1_counterexample:
  "messageIDs 2147483647 (initSocket ''ldap://localhost'') ! 2147483645 = 2147483646 \<and>
   messageIDs 2147483647 (initSocket ''ldap://localhost'') ! 2147483646 = 1 \<and>
   fst (getNextMessageID \<lparr> ldap_id = ''ldap://localhost'', ldap_messageID = 2147483646,
                            ldap_messages = [] \<rparr>) = 1"
  by (simp add: messageIDs_initSocket getNextMessageID_value)

subsection \<open>The timer of the request queue\<close>

lemma new_RequestQueue_timer: "q_timer (new_RequestQueue opts) = None"
  by (simp add: new_RequestQueue_def Let_def)

lemma enqueue_timer: "q_timer q = None \<Longrightarrow> q_timer (snd (enqueue e q)) = None"
  by (simp add: enqueue_def Let_def)

lemma flush_timer: "q_timer (snd (flush q)) = None"
  by (simp add: flush_def)

lemma purge_timer: "q_timer (snd (purge q)) = None"
  by (simp add: purge_def flush_def)

lemma freeze_timer: "q_timer (freeze q) = q_timer q"
  by (simp add: freeze_def)

lemma thaw_timer: "q_timer (thaw q) = q_timer q"
  by (simp add: thaw_def)

text \<open>
  C4 on the code: a queue made with a positive timeout accepts the first request, which
  takes it from empty to non-empty, and \<^verbatim>\<open>_timer\<close> is still null afterwards. The
  test \<^verbatim>\<open>this._timer !== null\<close> guards the only call of \<^verbatim>\<open>setTimeout\<close>, and
  nothing else stores a timer, so no enqueue ever starts one.
\<close>

theorem C4_timer_not_started:
  "0 < t \<Longrightarrow>
   enqueue e (new_RequestQueue (Some \<lparr> opt_size = sz, opt_timeout = Some t \<rparr>)) =
     (True, (new_RequestQueue (Some \<lparr> opt_size = sz, opt_timeout = Some t \<rparr>))\<lparr> q_queue := [e] \<rparr>) \<and>
   q_timeout (new_RequestQueue (Some \<lparr> opt_size = sz, opt_timeout = Some t \<rparr>)) = t \<and>
   q_timer (snd (enqueue e (new_RequestQueue (Some \<lparr> opt_size = sz, opt_timeout = Some t \<rparr>)))) = None"
  by (simp add: enqueue_def new_RequestQueue_def size_reached_def Let_def split: option.splits)

theorem C4_timer_not_started_witness:
  "q_timer (snd (enqueue
      \<lparr> sc_message = \<lparr> messageID = 0, controls = [], protocolOp = UnbindRequest \<rparr>,
        sc_expect = ExpectUnbind, sc_emitter = None, sc_callback = UserCallback 0 \<rparr>
      (new_RequestQueue (Some \<lparr> opt_size = Some 0, opt_timeout = Some 100 \<rparr>)))) = None"
  using C4_timer_not_started
    [of 100 "\<lparr> sc_message = \<lparr> messageID = 0, controls = [], protocolOp = UnbindRequest \<rparr>,
              sc_expect = ExpectUnbind, sc_emitter = None, sc_callback = UserCallback 0 \<rparr>"
        "Some 0"]
  by (simp add: new_RequestQueue_timer)

subsection \<open>The retry that \<^verbatim>\<open>_connect\<close> configures\<close>

text \<open>
  C5 on the code: for a client made with a reconnect option, the strategy is built from
  \<^verbatim>\<open>this.reconnect.minDelay\<close>, a property the constructor never stores, so its
  initial delay is undefined whatever \<^verbatim>\<open>initialDelay\<close> was configured; the maximal delay
  and the bound on the attempts are the configured ones.
\<close>

theorem C5_initialDelay_not_passed:
  "o_reconnect options = Some r \<Longrightarrow>
   reconnect (Client options) =
     Some [(''initialDelay'', int_or (initialDelay r) 100),
           (''maxDelay'', int_or (maxDelay r) 10000),
           (''failAfter'', int_or (failAfter r) 0)] \<and>
   trace (Client options) =
     [RetryStart (Some (ExponentialStrategy None (Some (int_or (maxDelay r) 10000))))
        (if int_or (failAfter r) 0 \<noteq> 0 then Some (int_or (failAfter r) 0) else None)]"
  by (simp add: Client_def connect_def emit_def Let_def)

theorem C5_initialDelay_not_passed_witness:
  "trace (Client \<lparr> o_url = Some ''ldap://localhost'', o_socketPath = None, o_timeout = None,
                   o_idleTimeout = None,
                   o_reconnect = Some \<lparr> initialDelay = Some 500, maxDelay = Some 8000,
                                         failAfter = Some 5 \<rparr>,
                   o_queuing = None, o_queueSize = None, o_queueTimeout = None \<rparr>) =
     [RetryStart (Some (ExponentialStrategy None (Some 8000))) (Some 5)]"
  using C5_initialDelay_not_passed
    [of "\<lparr> o_url = Some ''ldap://localhost'', o_socketPath = None, o_timeout = None,
           o_idleTimeout = None,
           o_reconnect = Some \<lparr> initialDelay = Some 500, maxDelay = Some 8000,
                                 failAfter = Some 5 \<rparr>,
           o_queuing = None, o_queueSize = None, o_queueTimeout = None \<rparr>"
        "\<lparr> initialDelay = Some 500, maxDelay = Some 8000, failAfter = Some 5 \<rparr>"]
  by (simp add: int_or_def)

text \<open>A client made without a reconnect option sets no strategy and gives
  \<^verbatim>\<open>failAfter\<close> the number 1.\<close>

lemma Client_without_reconnect:
  "o_reconnect options = None \<Longrightarrow> trace (Client options) = [RetryStart None (Some 1)]"
  by (simp add: Client_def connect_def emit_def Let_def)

subsection \<open>What the state changes leave alone\<close>

lemma emit_fields [simp]:
  "trace (emit evs c) = trace c @ evs"
  "closures (emit evs c) = closures c"
  "sockets (emit evs c) = sockets c"
  "socket (emit evs c) = socket c"
  "connected (emit evs c) = connected c"
  "connecting (emit evs c) = connecting c"
  "reconnect (emit evs c) = reconnect c"
  "destroyed (emit evs c) = destroyed c"
  "queue (emit evs c) = queue c"
  "idleTimeout (emit evs c) = idleTimeout c"
  "timeout (emit evs c) = timeout c"
  "retrying (emit evs c) = retrying c"
  by (simp_all add: emit_def)

lemma update_socket_fields [simp]:
  "trace (update_socket sa f c) = trace c"
  "closures (update_socket sa f c) = closures c"
  "length (sockets (update_socket sa f c)) = length (sockets c)"
  "socket (update_socket sa f c) = socket c"
  "connected (update_socket sa f c) = connected c"
  "connecting (update_socket sa f c) = connecting c"
  "reconnect (update_socket sa f c) = reconnect c"
  "destroyed (update_socket sa f c) = destroyed c"
  "queue (update_socket sa f c) = queue c"
  "idleTimeout (update_socket sa f c) = idleTimeout c"
  "timeout (update_socket sa f c) = timeout c"
  "retrying (update_socket sa f c) = retrying c"
  by (simp_all add: update_socket_def)

lemma update_ldap_fields [simp]:
  "trace (update_ldap sa f c) = trace c"
  "closures (update_ldap sa f c) = closures c"
  "length (sockets (update_ldap sa f c)) = length (sockets c)"
  "socket (update_ldap sa f c) = socket c"
  "connected (update_ldap sa f c) = connected c"
  "connecting (update_ldap sa f c) = connecting c"
  "reconnect (update_ldap sa f c) = reconnect c"
  "destroyed (update_ldap sa f c) = destroyed c"
  "queue (update_ldap sa f c) = queue c"
  "idleTimeout (update_ldap sa f c) = idleTimeout c"
  "timeout (update_ldap sa f c) = timeout c"
  "retrying (update_ldap sa f c) = retrying c"
  by (simp_all add: update_ldap_def)

lemma update_closure_fields [simp]:
  "trace (update_closure a f c) = trace c"
  "length (closures (update_closure a f c)) = length (closures c)"
  "sockets (update_closure a f c) = sockets c"
  "socket (update_closure a f c) = socket c"
  "connected (update_closure a f c) = connected c"
  "connecting (update_closure a f c) = connecting c"
  "reconnect (update_closure a f c) = reconnect c"
  "destroyed (update_closure a f c) = destroyed c"
  "queue (update_closure a f c) = queue c"
  "idleTimeout (update_closure a f c) = idleTimeout c"
  "timeout (update_closure a f c) = timeout c"
  "retrying (update_closure a f c) = retrying c"
  by (simp_all add: update_closure_def)

lemma updateIdle_fields [simp]:
  "trace (updateIdle b c) = trace c"
  "closures (updateIdle b c) = closures c"
  "sockets (updateIdle b c) = sockets c"
  "socket (updateIdle b c) = socket c"
  "connected (updateIdle b c) = connected c"
  "connecting (updateIdle b c) = connecting c"
  "reconnect (updateIdle b c) = reconnect c"
  "destroyed (updateIdle b c) = destroyed c"
  "queue (updateIdle b c) = queue c"
  "idleTimeout (updateIdle b c) = idleTimeout c"
  "timeout (updateIdle b c) = timeout c"
  "retrying (updateIdle b c) = retrying c"
  by (simp_all add: updateIdle_def)

lemma closure_at_frame [simp]:
  "closure_at (emit evs c) a = closure_at c a"
  "closure_at (update_socket sa f c) a = closure_at c a"
  "closure_at (update_ldap sa g c) a = closure_at c a"
  "closure_at (updateIdle b c) a = closure_at c a"
  by (simp_all add: closure_at_def)

lemma socket_at_frame [simp]:
  "socket_at (emit evs c) sa = socket_at c sa"
  "socket_at (update_closure a f c) sa = socket_at c sa"
  "socket_at (updateIdle b c) sa = socket_at c sa"
  by (simp_all add: socket_at_def)

lemma ldap_of_frame [simp]:
  "ldap_of (emit evs c) sa = ldap_of c sa"
  "ldap_of (update_closure a f c) sa = ldap_of c sa"
  "ldap_of (updateIdle b c) sa = ldap_of c sa"
  by (simp_all add: ldap_of_def)

subsection \<open>The continuation of a request\<close>

text \<open>What a continuation does with a response that ends its request.\<close>

lemma messageCallback_terminal:
  assumes p: "closure_at c a = Some p"
    and ab: "expect p \<noteq> ExpectAbandon"
    and msg: "msg = LDAPResult st em cs \<or> msg = ErrorObject e"
    and np: "case msg_controls msg of None \<Rightarrow> True
             | Some rcs \<Rightarrow> paged_resend rcs (controls (message p)) = None"
  shows "messageCallback a msg c =
           emit (case msg of
                   LDAPResult st em cs \<Rightarrow>
                     (if \<not> status_expected (expect p) st
                      then done_ev p ''error'' (AErr (getError msg))
                      else done_ev p ''end'' (AMsg msg))
                 | ErrorObject e \<Rightarrow> done_ev p ''error'' (AErr e)
                 | _ \<Rightarrow> [])
             (updateIdle False
                (update_ldap (conn p)
                   (\<lambda>l. l\<lparr> ldap_messages := table_delete (messageID (message p)) (ldap_messages l) \<rparr>)
                   (if timer p then emit [ClearTimeout a] c else c)))"
proof -
  have cont: "continuePagedSearch a msg c' = (False, c')" if "closure_at c' a = Some p" for c'
    using that np by (auto simp: continuePagedSearch_def split: option.splits)
  from msg show ?thesis
  proof
    assume m: "msg = LDAPResult st em cs"
    show ?thesis
      using p ab cont [unfolded m]
      by (simp add: messageCallback_def Let_def m)
  next
    assume m: "msg = ErrorObject e"
    show ?thesis
      using p ab cont [unfolded m]
      by (simp add: messageCallback_def Let_def m)
  qed
qed

subsection \<open>The timeout of a request\<close>

lemma done_ev_error:
  "done_ev p ''error'' obj =
     (case emitter p of
        Some em \<Rightarrow> if sentEmitter p
                   then [EmitterRemoveAllListeners em ''end'', EmitterEmit em ''error'' obj]
                   else invoke (callback p) [obj]
      | None \<Rightarrow> invoke (callback p) [obj])"
  by (simp add: done_ev_def split: option.splits)

text \<open>
  C6, as the code has it. A request other than an abandon is sent with a timer, and the
  timer fires while the request table still holds the request's continuation under its
  identifier. Then \<^verbatim>\<open>onRequestTimeout\<close> emits \<^verbatim>\<open>'timeout'\<close> and calls that
  continuation with an \<^verbatim>\<open>LDAPResult\<close> of status 80 and message
  \<^verbatim>\<open>request timeout (client interrupt)\<close>. 80 is not an expected status, so the
  request completes with the error made from that result: its callback is called with
  the error, or, if the emitter of a search was handed over, the emitter emits
  \<^verbatim>\<open>'error'\<close>. Nothing is written to the socket, and the entry leaves the table.
\<close>

theorem C6_request_timeout:
  assumes "closure_at c a = Some p"
    and "ldap_of c (conn p) = Some l"
    and "map_of (ldap_messages l) (messageID (message p)) = Some a"
    and "expect p \<noteq> ExpectAbandon"
    and "\<not> status_expected (expect p) (NumStatus 80)"
  shows "onRequestTimeout a c =
           messageCallback a (LDAPResult (NumStatus 80) ''request timeout (client interrupt)'' [])
             (emit [ClientEmit ''timeout''] c) \<and>
         trace (onRequestTimeout a c) =
           trace c @ [ClientEmit ''timeout''] @ (if timer p then [ClearTimeout a] else []) @
           (case emitter p of
              Some em \<Rightarrow> if sentEmitter p
                         then [EmitterRemoveAllListeners em ''end'',
                               EmitterEmit em ''error'' (AErr (ServerError 80))]
                         else invoke (callback p) [AErr (ServerError 80)]
            | None \<Rightarrow> invoke (callback p) [AErr (ServerError 80)]) \<and>
         ldap_of (onRequestTimeout a c) (conn p) =
           Some (l\<lparr> ldap_messages := table_delete (messageID (message p)) (ldap_messages l) \<rparr>)"
proof -
  let ?msg = "LDAPResult (NumStatus 80) ''request timeout (client interrupt)'' []"
  let ?c1 = "emit [ClientEmit ''timeout''] c"
  have eq: "onRequestTimeout a c = messageCallback a ?msg ?c1"
    using assms(1-3) by (simp add: onRequestTimeout_def request_timeout_result_def Let_def)
  have p1: "closure_at ?c1 a = Some p" using assms(1) by simp
  have np: "case msg_controls ?msg of None \<Rightarrow> True
            | Some rcs \<Rightarrow> paged_resend rcs (controls (message p)) = None"
    by simp
  note mc = messageCallback_terminal [OF p1 assms(4) disjI1 [OF refl] np]
  have tr: "trace (messageCallback a ?msg ?c1) =
             trace c @ [ClientEmit ''timeout''] @ (if timer p then [ClearTimeout a] else []) @
             done_ev p ''error'' (AErr (ServerError 80))"
    unfolding mc using assms(5) by simp
  have ld: "ldap_of (messageCallback a ?msg ?c1) (conn p) =
             Some (l\<lparr> ldap_messages := table_delete (messageID (message p)) (ldap_messages l) \<rparr>)"
    unfolding mc using assms(2)
    by (auto simp: ldap_of_def socket_at_def update_ldap_def update_socket_def emit_def
             split: option.splits if_splits)
  show ?thesis
    unfolding eq using tr ld by (simp add: done_ev_error)
qed

theorem C6_request_timeout_witness:
  "trace (onRequestTimeout 0 compare_sent) =
     [RetryStart None (Some 1), ClientEmit ''connect'', SetTimeout 0 50,
      SocketWrite 0 \<lparr> messageID = 1, controls = [],
                       protocolOp = CompareRequest [RDN [(''cn'', ''a'')]] ''sn'' ''x'' \<rparr>,
      ClientEmit ''timeout'', ClearTimeout 0, Called 7 [AErr (ServerError 80)]]"
proof -
  let ?p = "\<lparr> message = \<lparr> messageID = 1, controls = [],
                   protocolOp = CompareRequest [RDN [(''cn'', ''a'')]] ''sn'' ''x'' \<rparr>,
               expect = ExpectCodes CMP_EXPECT, emitter = None, callback = CompareCallback 7,
               conn = 0, timer = True, sentEmitter = False \<rparr>"
  let ?l = "\<lparr> ldap_id = ''1__ldap://localhost'', ldap_messageID = 1, ldap_messages = [(1, 0)] \<rparr>"
  have h1: "closure_at compare_sent 0 = Some ?p" by code_simp
  have h2: "ldap_of compare_sent (conn ?p) = Some ?l" by code_simp
  have h3: "map_of (ldap_messages ?l) (messageID (message ?p)) = Some 0" by simp
  have h4: "expect ?p \<noteq> ExpectAbandon" by simp
  have h5: "\<not> status_expected (expect ?p) (NumStatus 80)"
    by (simp add: CMP_EXPECT_def LDAP_COMPARE_TRUE_def LDAP_COMPARE_FALSE_def)
  have t: "trace compare_sent =
     [RetryStart None (Some 1), ClientEmit ''connect'', SetTimeout 0 50,
      SocketWrite 0 \<lparr> messageID = 1, controls = [],
                       protocolOp = CompareRequest [RDN [(''cn'', ''a'')]] ''sn'' ''x'' \<rparr>]"
    by code_simp
  have "trace (onRequestTimeout 0 compare_sent) =
          trace compare_sent @ [ClientEmit ''timeout''] @ [ClearTimeout 0] @
          [Called 7 [AErr (ServerError 80)]]"
    using C6_request_timeout [OF h1 h2 h3 h4 h5, THEN conjunct2, THEN conjunct1] by simp
  then show ?thesis unfolding t by simp
qed

text \<open>
  C6 as stated fails for an abandon. Its continuation stays in the table after the
  write, the timer is not cleared, and when it fires the continuation answers
  \<^verbatim>\<open>_done('end', null)\<close>: the callback is called a second time, with no error.
\<close>

theorem C6_counterexample:
  "closure_at (writeCallback 0 abandon_sent) 0 =
     Some \<lparr> message = \<lparr> messageID = 1, controls = [], protocolOp = AbandonRequest 5 \<rparr>,
            expect = ExpectAbandon, emitter = None, callback = UserCallback 7,
            conn = 0, timer = True, sentEmitter = False \<rparr> \<and>
   trace (onRequestTimeout 0 (writeCallback 0 abandon_sent)) =
     [RetryStart None (Some 1), ClientEmit ''connect'', SetTimeout 0 50,
      SocketWrite 0 \<lparr> messageID = 1, controls = [], protocolOp = AbandonRequest 5 \<rparr>,
      Called 7 [ANull], ClientEmit ''timeout'', ClearTimeout 0, Called 7 [ANull, ANull]]"
  by code_simp

subsection \<open>Closing the transport\<close>

lemma socket_at_update_ldap:
  "socket_at c sa = Some s \<Longrightarrow>
   socket_at (update_ldap sa f c) sa' =
     (if sa' = sa then Some (s\<lparr> ldap := map_option f (ldap s) \<rparr>) else socket_at c sa')"
  by (auto simp: socket_at_def update_ldap_def update_socket_def split: if_splits)

lemma map_of_table_delete:
  "map_of (table_delete k t) k' = (if k' = k then None else map_of t k')"
  by (induction t) (auto simp: table_delete_def)

lemma table_delete_idem: "table_delete k (table_delete k t) = table_delete k t"
  by (simp add: table_delete_def)

lemma messageCallback_abandon:
  assumes "closure_at c a = Some p" and "expect p = ExpectAbandon"
  shows "messageCallback a msg c =
           emit (done_ev p ''end'' ANull) (if timer p then emit [ClearTimeout a] c else c)"
  using assms by (simp add: messageCallback_def Let_def)

lemma onClose_entry_eq:
  assumes s: "socket_at c sa = Some s" and l: "ldap s = Some l"
    and k: "map_of (ldap_messages l) k = Some a"
    and p: "closure_at c a = Some p"
  shows "onClose_entry sa k c =
     (let c0 = update_ldap sa (\<lambda>l. l\<lparr> ldap_messages := table_delete k (ldap_messages l) \<rparr>) c;
          c1 = (if timer p then emit [ClearTimeout a] c0 else c0)
      in if expect p = ExpectAbandon then emit (done_ev p ''end'' ANull) c1
         else emit (if unbindMessageID s \<noteq> Some k
                    then done_ev p ''error'' (AErr (ConnectionError (ldap_id l @ '' closed'')))
                    else if expect p = ExpectUnbind then done_ev p ''end'' (AMsg UnbindResponse)
                    else done_ev p ''error'' (AErr (getError UnbindResponse)))
                (updateIdle False
                   (update_ldap (conn p)
                      (\<lambda>l. l\<lparr> ldap_messages :=
                                table_delete (messageID (message p)) (ldap_messages l) \<rparr>) c1)))"
proof -
  let ?del = "\<lambda>l. l\<lparr> ldap_messages := table_delete k (ldap_messages l) \<rparr>"
  let ?c0 = "update_ldap sa ?del c"
  let ?err = "if unbindMessageID s \<noteq> Some k
              then ErrorObject (ConnectionError (ldap_id l @ '' closed'')) else UnbindResponse"
  have step: "onClose_entry sa k c = messageCallback a ?err ?c0"
    using s l k by (simp add: onClose_entry_def Let_def)
  have p0: "closure_at ?c0 a = Some p" using p by simp
  show ?thesis
  proof (cases "expect p = ExpectAbandon")
    case True
    show ?thesis
      unfolding step messageCallback_abandon [OF p0 True, of ?err] using True
      by (simp add: Let_def)
  next
    case False
    have m: "?err = LDAPResult (StrStatus ''unbind'') [] [] \<or>
             ?err = ErrorObject (ConnectionError (ldap_id l @ '' closed''))"
      by (simp add: UnbindResponse_def)
    have np: "case msg_controls ?err of None \<Rightarrow> True
              | Some rcs \<Rightarrow> paged_resend rcs (controls (message p)) = None"
      by (simp add: UnbindResponse_def)
    have ue: "status_expected (expect p) (StrStatus ''unbind'') = (expect p = ExpectUnbind)"
      using False by (cases "expect p") simp_all
    show ?thesis
      unfolding step messageCallback_terminal [OF p0 False m np] using False ue
      by (simp add: Let_def UnbindResponse_def)
  qed
qed

lemma onClose_entry_step:
  assumes s: "socket_at c sa = Some s" and l: "ldap s = Some l"
    and k: "map_of (ldap_messages l) k = Some a"
    and p: "closure_at c a = Some p" and mid: "messageID (message p) = k" and cn: "conn p = sa"
  shows "\<exists>s' l'. socket_at (onClose_entry sa k c) sa = Some s' \<and> ldap s' = Some l' \<and>
           unbindMessageID s' = unbindMessageID s \<and> ldap_id l' = ldap_id l \<and>
           (\<forall>k'. k' \<noteq> k \<longrightarrow> map_of (ldap_messages l') k' = map_of (ldap_messages l) k')"
    and "closures (onClose_entry sa k c) = closures c"
    and "trace (onClose_entry sa k c) =
           trace c @ (if timer p then [ClearTimeout a] else []) @
           (if expect p = ExpectAbandon then done_ev p ''end'' ANull
            else if unbindMessageID s \<noteq> Some k
            then done_ev p ''error'' (AErr (ConnectionError (ldap_id l @ '' closed'')))
            else if expect p = ExpectUnbind then done_ev p ''end'' (AMsg UnbindResponse)
            else done_ev p ''error'' (AErr (getError UnbindResponse)))"
    and "reconnect (onClose_entry sa k c) = reconnect c"
    and "connecting (onClose_entry sa k c) = connecting c"
    and "socket (onClose_entry sa k c) = socket c"
    and "destroyed (onClose_entry sa k c) = destroyed c"
    and "retrying (onClose_entry sa k c) = retrying c"
proof -
  note eq = onClose_entry_eq [OF s l k p]
  show "\<exists>s' l'. socket_at (onClose_entry sa k c) sa = Some s' \<and> ldap s' = Some l' \<and>
           unbindMessageID s' = unbindMessageID s \<and> ldap_id l' = ldap_id l \<and>
           (\<forall>k'. k' \<noteq> k \<longrightarrow> map_of (ldap_messages l') k' = map_of (ldap_messages l) k')"
    unfolding eq using s l mid cn
    by (simp add: Let_def socket_at_update_ldap map_of_table_delete)
  show "closures (onClose_entry sa k c) = closures c"
    unfolding eq by (simp add: Let_def)
  show "trace (onClose_entry sa k c) =
           trace c @ (if timer p then [ClearTimeout a] else []) @
           (if expect p = ExpectAbandon then done_ev p ''end'' ANull
            else if unbindMessageID s \<noteq> Some k
            then done_ev p ''error'' (AErr (ConnectionError (ldap_id l @ '' closed'')))
            else if expect p = ExpectUnbind then done_ev p ''end'' (AMsg UnbindResponse)
            else done_ev p ''error'' (AErr (getError UnbindResponse)))"
    unfolding eq by (simp add: Let_def)
  show "reconnect (onClose_entry sa k c) = reconnect c"
    and "connecting (onClose_entry sa k c) = connecting c"
    and "socket (onClose_entry sa k c) = socket c"
    and "destroyed (onClose_entry sa k c) = destroyed c"
    and "retrying (onClose_entry sa k c) = retrying c"
    unfolding eq by (simp_all add: Let_def)
qed


lemma onClose_loop:
  assumes "socket_at c sa = Some s" and "ldap s = Some l" and "distinct (map fst T)"
    and "\<forall>(k, a) \<in> set T. map_of (ldap_messages l) k = Some a \<and>
           (\<exists>p. closure_at c a = Some p \<and> messageID (message p) = k \<and> conn p = sa)"
  shows "trace (fold (onClose_entry sa) (map fst T) c) =
           trace c @ concat (map (\<lambda>(k, a). onClose_entry_events s l k a (closures c ! a)) T) \<and>
         closures (fold (onClose_entry sa) (map fst T) c) = closures c \<and>
         reconnect (fold (onClose_entry sa) (map fst T) c) = reconnect c \<and>
         connecting (fold (onClose_entry sa) (map fst T) c) = connecting c \<and>
         socket (fold (onClose_entry sa) (map fst T) c) = socket c \<and>
         destroyed (fold (onClose_entry sa) (map fst T) c) = destroyed c \<and>
         retrying (fold (onClose_entry sa) (map fst T) c) = retrying c \<and>
         length (sockets (fold (onClose_entry sa) (map fst T) c)) = length (sockets c)"
  using assms
proof (induction T arbitrary: c s l)
  case Nil
  then show ?case by simp
next
  case (Cons ka T)
  obtain k a where ka: "ka = (k, a)" by (cases ka)
  from Cons.prems(4) ka obtain p where
    k: "map_of (ldap_messages l) k = Some a" and p: "closure_at c a = Some p"
    and mid: "messageID (message p) = k" and cn: "conn p = sa"
    by auto
  let ?c' = "onClose_entry sa k c"
  note st = onClose_entry_step [OF Cons.prems(1) Cons.prems(2) k p mid cn]
  from st(1) obtain s' l' where
    s': "socket_at ?c' sa = Some s'" and l': "ldap s' = Some l'"
    and u: "unbindMessageID s' = unbindMessageID s" and i: "ldap_id l' = ldap_id l"
    and m: "\<forall>k'. k' \<noteq> k \<longrightarrow> map_of (ldap_messages l') k' = map_of (ldap_messages l) k'"
    by blast
  have cl: "closures ?c' = closures c" by (rule st(2))
  have ca: "closure_at ?c' b = closure_at c b" for b
    by (simp add: closure_at_def cl)
  have d: "distinct (map fst T)" using Cons.prems(3) by simp
  have nk: "k' \<noteq> k" if "(k', a') \<in> set T" for k' a'
    using Cons.prems(3) ka that by (auto simp: image_iff)
  have inv: "\<forall>(k', a') \<in> set T. map_of (ldap_messages l') k' = Some a' \<and>
           (\<exists>p. closure_at ?c' a' = Some p \<and> messageID (message p) = k' \<and> conn p = sa)"
    using Cons.prems(4) m nk by (auto simp: ca)
  note ih = Cons.IH [OF s' l' d inv]
  have pe: "closures c ! a = p" using p by (auto simp: closure_at_def split: if_splits)
  have ev: "onClose_entry_events s' l' = onClose_entry_events s l"
    by (intro ext) (simp add: onClose_entry_events_def u i)
  have tr: "trace ?c' = trace c @ onClose_entry_events s l k a (closures c ! a)"
    unfolding pe using st(3) by (simp add: onClose_entry_events_def)
  have sl: "length (sockets ?c') = length (sockets c)"
    using Cons.prems(1) s' unfolding onClose_entry_eq [OF Cons.prems(1) Cons.prems(2) k p]
    by (simp add: Let_def)
  from ih have ih': "trace (fold (onClose_entry sa) (map fst T) ?c') =
      trace ?c' @ concat (map (\<lambda>(k, a). onClose_entry_events s l k a (closures c ! a)) T)"
    and rest: "closures (fold (onClose_entry sa) (map fst T) ?c') = closures ?c'"
      "reconnect (fold (onClose_entry sa) (map fst T) ?c') = reconnect ?c'"
      "connecting (fold (onClose_entry sa) (map fst T) ?c') = connecting ?c'"
      "socket (fold (onClose_entry sa) (map fst T) ?c') = socket ?c'"
      "destroyed (fold (onClose_entry sa) (map fst T) ?c') = destroyed ?c'"
      "retrying (fold (onClose_entry sa) (map fst T) ?c') = retrying ?c'"
      "length (sockets (fold (onClose_entry sa) (map fst T) ?c')) = length (sockets ?c')"
    unfolding ev cl by blast+
  show ?case
    unfolding ka using ih' rest tr st(2,4-8) sl by simp
qed







text \<open>
  \<^verbatim>\<open>_onClose\<close> reads \<^verbatim>\<open>this.socket\<close>, whichever socket emitted \<^verbatim>\<open>'close'\<close>. A
  client with reconnect sends an Unbind on its first socket; a compare made after it
  is queued and starts a new connection, and is sent on the second socket once that
  has connected. When the first socket then closes, \<^verbatim>\<open>_onClose\<close> goes through the
  table of the second: the compare in flight there gets the connection error, and the
  Unbind stays in the table of the first socket, its callback not called. C3 above
  is about the close of the socket that \<^verbatim>\<open>this.socket\<close> names, and says nothing of
  this one.
\<close>

lemma onClose_after_reconnect:
  "socket reconnected_after_unbind = Some 1 \<and>
   trace (onClose False reconnected_after_unbind) =
     trace reconnected_after_unbind @
     [ClientEmit ''close'', Called 7 [AErr (ConnectionError ''2__ldap://localhost closed'')]] \<and>
   ldap_of (onClose False reconnected_after_unbind) 0 =
     Some \<lparr> ldap_id = ''1__ldap://localhost'', ldap_messageID = 1, ldap_messages = [(1, 0)] \<rparr> \<and>
   map_option unbindMessageID (socket_at (onClose False reconnected_after_unbind) 0) =
     Some (Some 1)"
  by code_simp


subsection \<open>Paged searches\<close>

lemma update_request_cookie_at:
  "\<forall>x \<in> set pre. \<exists>oid. x = OtherControl oid \<Longrightarrow>
   update_request_cookie ck (pre @ PagedResultsControl sz old # post) =
     Some (pre @ PagedResultsControl sz ck # post)"
  by (induction pre) auto

lemma paged_resend_at:
  "\<forall>x \<in> set pre. (case x of PagedResultsControl sz ck \<Rightarrow> \<not> has_cookie ck | OtherControl oid \<Rightarrow> True) \<Longrightarrow>
   has_cookie ck \<Longrightarrow>
   paged_resend (pre @ PagedResultsControl sz ck # post) req_controls =
     (case update_request_cookie ck req_controls of
        Some cs \<Rightarrow> Some cs
      | None \<Rightarrow> paged_resend post req_controls)"
proof (induction pre)
  case Nil
  then show ?case by simp
next
  case (Cons x pre)
  then show ?case by (cases x) auto
qed

lemma paged_resend_none:
  "\<forall>x \<in> set rcs. (case x of PagedResultsControl sz ck \<Rightarrow> \<not> has_cookie ck | OtherControl oid \<Rightarrow> True) \<Longrightarrow>
   paged_resend rcs req_controls = None"
proof (induction rcs)
  case Nil
  then show ?case by simp
next
  case (Cons x rcs)
  then show ?case by (cases x) auto
qed

lemma closure_at_update_closure:
  "closure_at c a = Some p \<Longrightarrow> closure_at (update_closure a f c) a = Some (f p)"
  by (auto simp: closure_at_def update_closure_def split: if_splits)

lemma messageCallback_resend:
  assumes p: "closure_at c a = Some p" and ab: "expect p \<noteq> ExpectAbandon"
    and s: "socket_at c (conn p) = Some s" and w: "write_raises s = None"
    and r: "paged_resend rcs (controls (message p)) = Some cs"
  shows "messageCallback a (LDAPResult st em rcs) c =
           emit [SocketWrite (conn p) ((message p)\<lparr> controls := cs \<rparr>)]
             (update_closure a (\<lambda>p. p\<lparr> message := (message p)\<lparr> controls := cs \<rparr> \<rparr>)
                (if timer p then emit [ClearTimeout a] c else c))"
proof -
  have cont: "continuePagedSearch a (LDAPResult st em rcs) c' =
        (True, emit [SocketWrite (conn p) ((message p)\<lparr> controls := cs \<rparr>)]
                 (update_closure a (\<lambda>p. p\<lparr> message := (message p)\<lparr> controls := cs \<rparr> \<rparr>) c'))"
    if "closure_at c' a = Some p" and "socket_at c' (conn p) = Some s" for c'
    using that r w by (simp add: continuePagedSearch_def Let_def)
  show ?thesis
    using p ab s by (simp add: messageCallback_def Let_def cont)
qed

text \<open>
  C7. A continuation that is not an abandon's is called with a terminal response, an
  \<^verbatim>\<open>LDAPResult\<close> with the controls \<open>rcs\<close>, and writing to its socket raises nothing.
  If the first \<^verbatim>\<open>PagedResultsControl\<close> of the response that has a cookie holds the
  non-empty cookie \<open>ck\<close>, and the request has a \<^verbatim>\<open>PagedResultsControl\<close>, then the
  cookie is stored in the first such control of the request and the request is written
  to the socket again; the closure keeps its identifier, emitter and callback, no socket
  and so no request table changes, and nothing is completed. If no
  \<^verbatim>\<open>PagedResultsControl\<close> of the response has a cookie (there is none, or the cookie is
  empty), nothing is written: the request completes and leaves the table.
\<close>

theorem C7_paged_search:
  assumes p: "closure_at c a = Some p" and ab: "expect p \<noteq> ExpectAbandon"
    and s: "socket_at c (conn p) = Some s" and w: "write_raises s = None"
  shows
    "(rcs = rpre @ PagedResultsControl rsz (Some ck) # rpost \<and> ck \<noteq> [] \<and>
      (\<forall>x \<in> set rpre. case x of PagedResultsControl sz k \<Rightarrow> \<not> has_cookie k | OtherControl oid \<Rightarrow> True) \<and>
      controls (message p) = qpre @ PagedResultsControl qsz old # qpost \<and>
      (\<forall>x \<in> set qpre. \<exists>oid. x = OtherControl oid) \<longrightarrow>
      trace (messageCallback a (LDAPResult st em rcs) c) =
        trace c @ (if timer p then [ClearTimeout a] else []) @
        [SocketWrite (conn p)
           ((message p)\<lparr> controls := qpre @ PagedResultsControl qsz (Some ck) # qpost \<rparr>)] \<and>
      closure_at (messageCallback a (LDAPResult st em rcs) c) a =
        Some (p\<lparr> message :=
                  (message p)\<lparr> controls := qpre @ PagedResultsControl qsz (Some ck) # qpost \<rparr> \<rparr>) \<and>
      sockets (messageCallback a (LDAPResult st em rcs) c) = sockets c) \<and>
     ((\<forall>x \<in> set rcs. case x of PagedResultsControl sz k \<Rightarrow> \<not> has_cookie k | OtherControl oid \<Rightarrow> True) \<longrightarrow>
      trace (messageCallback a (LDAPResult st em rcs) c) =
        trace c @ (if timer p then [ClearTimeout a] else []) @
        (if status_expected (expect p) st then done_ev p ''end'' (AMsg (LDAPResult st em rcs))
         else done_ev p ''error'' (AErr (getError (LDAPResult st em rcs)))) \<and>
      ldap_of (messageCallback a (LDAPResult st em rcs) c) (conn p) =
        map_option (\<lambda>l. l\<lparr> ldap_messages := table_delete (messageID (message p)) (ldap_messages l) \<rparr>)
          (ldap s))"
proof (intro conjI impI)
  assume h: "rcs = rpre @ PagedResultsControl rsz (Some ck) # rpost \<and> ck \<noteq> [] \<and>
      (\<forall>x \<in> set rpre. case x of PagedResultsControl sz k \<Rightarrow> \<not> has_cookie k | OtherControl oid \<Rightarrow> True) \<and>
      controls (message p) = qpre @ PagedResultsControl qsz old # qpost \<and>
      (\<forall>x \<in> set qpre. \<exists>oid. x = OtherControl oid)"
  let ?cs = "qpre @ PagedResultsControl qsz (Some ck) # qpost"
  from h have hc: "has_cookie (Some ck)" by (simp add: has_cookie_def)
  from h have u: "update_request_cookie (Some ck) (controls (message p)) = Some ?cs"
    by (simp add: update_request_cookie_at)
  from h hc u have r: "paged_resend rcs (controls (message p)) = Some ?cs"
    by (simp add: paged_resend_at)
  note mc = messageCallback_resend [OF p ab s w r]
  show "trace (messageCallback a (LDAPResult st em rcs) c) =
        trace c @ (if timer p then [ClearTimeout a] else []) @
        [SocketWrite (conn p) ((message p)\<lparr> controls := ?cs \<rparr>)]"
    unfolding mc by simp
  show "closure_at (messageCallback a (LDAPResult st em rcs) c) a =
        Some (p\<lparr> message := (message p)\<lparr> controls := ?cs \<rparr> \<rparr>)"
    unfolding mc using p by (simp add: closure_at_update_closure)
  show "sockets (messageCallback a (LDAPResult st em rcs) c) = sockets c"
    unfolding mc by simp
next
  assume h: "\<forall>x \<in> set rcs. case x of PagedResultsControl sz k \<Rightarrow> \<not> has_cookie k | OtherControl oid \<Rightarrow> True"
  have np: "case msg_controls (LDAPResult st em rcs) of None \<Rightarrow> True
            | Some rcs \<Rightarrow> paged_resend rcs (controls (message p)) = None"
    using h by (simp add: paged_resend_none)
  note mc = messageCallback_terminal [OF p ab disjI1 [OF refl] np]
  show "trace (messageCallback a (LDAPResult st em rcs) c) =
        trace c @ (if timer p then [ClearTimeout a] else []) @
        (if status_expected (expect p) st then done_ev p ''end'' (AMsg (LDAPResult st em rcs))
         else done_ev p ''error'' (AErr (getError (LDAPResult st em rcs))))"
    unfolding mc by simp
  show "ldap_of (messageCallback a (LDAPResult st em rcs) c) (conn p) =
        map_option (\<lambda>l. l\<lparr> ldap_messages := table_delete (messageID (message p)) (ldap_messages l) \<rparr>)
          (ldap s)"
  proof -
    have s1: "socket_at (if timer p then emit [ClearTimeout a] c else c) (conn p) = Some s"
      using s by simp
    show ?thesis
      unfolding mc by (simp add: ldap_of_def socket_at_update_ldap [OF s1])
  qed
qed

theorem C7_paged_search_witness:
  "trace (messageCallback 0
            (LDAPResult (NumStatus 0) [] [PagedResultsControl 0 (Some [97])]) paged_search_sent) =
     trace paged_search_sent @
     [SocketWrite 0 \<lparr> messageID = 1, controls = [PagedResultsControl 5 (Some [97])],
                       protocolOp = SearchRequest
                         \<lparr> baseObject = [RDN [(''cn'', ''o=test'')]], scope = Str ''sub'',
                           search_filter = PresenceFilter ''objectclass'', derefAliases = Num 0,
                           sizeLimit = Num 0, timeLimit = Num 10, typesOnly = Bool False,
                           attributes = Array [] \<rparr> \<rparr>] \<and>
   trace (messageCallback 0 (LDAPResult (NumStatus 0) [] [PagedResultsControl 0 (Some [])])
            paged_search_sent) =
     trace paged_search_sent @
     [EmitterRemoveAllListeners 3 ''error'',
      EmitterEmit 3 ''end'' (AMsg (LDAPResult (NumStatus 0) [] [PagedResultsControl 0 (Some [])]))]"
proof -
  let ?m = "\<lparr> messageID = 1, controls = [PagedResultsControl 5 (Some [])],
                       protocolOp = SearchRequest
                         \<lparr> baseObject = [RDN [(''cn'', ''o=test'')]], scope = Str ''sub'',
                           search_filter = PresenceFilter ''objectclass'', derefAliases = Num 0,
                           sizeLimit = Num 0, timeLimit = Num 10, typesOnly = Bool False,
                           attributes = Array [] \<rparr> \<rparr>"
  let ?p = "\<lparr> message = ?m, expect = ExpectCodes [LDAP_SUCCESS], emitter = Some 3,
               callback = UserCallback 7, conn = 0, timer = False, sentEmitter = True \<rparr>"
  let ?s = "\<lparr> ldap = Some \<lparr> ldap_id = ''1__ldap://localhost'', ldap_messageID = 1,
                             ldap_messages = [(1, 0)] \<rparr>,
               unbindMessageID = None, writable = True, write_raises = None \<rparr>"
  have h1: "closure_at paged_search_sent 0 = Some ?p" by code_simp
  have h2: "expect ?p \<noteq> ExpectAbandon" by simp
  have h3: "socket_at paged_search_sent (conn ?p) = Some ?s" by code_simp
  have h4: "write_raises ?s = None" by simp
  note a = C7_paged_search [OF h1 h2 h3 h4,
      of "[PagedResultsControl 0 (Some [97])]" "[]" 0 "[97]" "[]" "[]" 5 "Some []" "[]" "NumStatus 0" "[]",
      THEN conjunct1]
  note b = C7_paged_search [OF h1 h2 h3 h4,
      of "[PagedResultsControl 0 (Some [])]" _ _ _ _ _ _ _ _ "NumStatus 0" "[]",
      THEN conjunct2]
  have a': "trace (messageCallback 0
            (LDAPResult (NumStatus 0) [] [PagedResultsControl 0 (Some [97])]) paged_search_sent) =
     trace paged_search_sent @ [SocketWrite 0 (?m\<lparr> controls := [PagedResultsControl 5 (Some [97])] \<rparr>)]"
    using a by simp
  have b': "trace (messageCallback 0 (LDAPResult (NumStatus 0) [] [PagedResultsControl 0 (Some [])])
            paged_search_sent) =
     trace paged_search_sent @
     [EmitterRemoveAllListeners 3 ''error'',
      EmitterEmit 3 ''end'' (AMsg (LDAPResult (NumStatus 0) [] [PagedResultsControl 0 (Some [])]))]"
    using b by (simp add: has_cookie_def done_ev_def LDAP_SUCCESS_def)
  from a' b' show ?thesis by simp
qed


subsection \<open>The result of a compare\<close>

lemma map_of_table_set: "map_of (table_set k v t) k = Some v"
  by (induction t) auto

lemma sendSocket_installs:
  assumes "socket c = Some sa" and "socket_at c sa = Some s" and "ldap s = Some l"
  shows "closure_at (sendSocket call c) (length (closures c)) =
           Some \<lparr> message = (sc_message call)\<lparr> messageID := fst (getNextMessageID l) \<rparr>,
                  expect = sc_expect call, emitter = sc_emitter call, callback = sc_callback call,
                  conn = sa, timer = (timeout c \<noteq> 0), sentEmitter = False \<rparr>"
    and "\<exists>l'. ldap_of (sendSocket call c) sa = Some l' \<and>
              map_of (ldap_messages l') (fst (getNextMessageID l)) = Some (length (closures c))"
proof -
  obtain mid l' where g: "getNextMessageID l = (mid, l')" by (cases "getNextMessageID l")
  let ?a = "length (closures c)"
  let ?p = "\<lparr> message = (sc_message call)\<lparr> messageID := mid \<rparr>,
               expect = sc_expect call, emitter = sc_emitter call, callback = sc_callback call,
               conn = sa, timer = (timeout c \<noteq> 0), sentEmitter = False \<rparr>"
  let ?c0 = "c\<lparr> closures := closures c @ [?p] \<rparr>"
  let ?c1 = "update_ldap sa (\<lambda>_. l'\<lparr> ldap_messages := table_set mid ?a (ldap_messages l') \<rparr>) ?c0"
  have ld: "ldap_of (update_ldap sa (\<lambda>_. L) (c\<lparr> closures := closures c @ [q] \<rparr>)) sa = Some L"
    for L q
  proof -
    have "socket_at (c\<lparr> closures := closures c @ [q] \<rparr>) sa = Some s"
      using assms(2) by (auto simp: socket_at_def split: if_splits)
    from socket_at_update_ldap [OF this] assms(3) show ?thesis
      by (simp add: ldap_of_def)
  qed
  let ?c2 = "updateIdle True ?c1"
  let ?c3 = "if timeout c \<noteq> 0 then emit [SetTimeout ?a (timeout c)] ?c2 else ?c2"
  have eq: "sendSocket call c =
              (case write_raises s of
                 None \<Rightarrow> emit [SocketWrite sa ((sc_message call)\<lparr> messageID := mid \<rparr>)] ?c3
               | Some e \<Rightarrow>
                   emit ((if timeout c \<noteq> 0 then [ClearTimeout ?a] else []) @
                         invoke (sc_callback call) [AErr e]) ?c3)"
    using assms g by (simp add: sendSocket_def Let_def)
  have cl3: "closure_at (sendSocket call c) ?a = Some ?p"
    unfolding eq by (simp add: closure_at_def split: option.splits)
  have ld3: "ldap_of (sendSocket call c) sa =
               Some (l'\<lparr> ldap_messages := table_set mid ?a (ldap_messages l') \<rparr>)"
    unfolding eq by (simp add: ld split: option.splits)
  show "closure_at (sendSocket call c) (length (closures c)) =
           Some \<lparr> message = (sc_message call)\<lparr> messageID := fst (getNextMessageID l) \<rparr>,
                  expect = sc_expect call, emitter = sc_emitter call, callback = sc_callback call,
                  conn = sa, timer = (timeout c \<noteq> 0), sentEmitter = False \<rparr>"
    using cl3 g by simp
  show "\<exists>l'. ldap_of (sendSocket call c) sa = Some l' \<and>
              map_of (ldap_messages l') (fst (getNextMessageID l)) = Some (length (closures c))"
    using ld3 g by (simp add: map_of_table_set)
qed

lemma compare_Inr:
  assumes "compare parse name attr val ctl cb = Inr call"
  shows "\<exists>f. (ctl = Function f \<or> cb = Function f) \<and> sc_expect call = ExpectCodes CMP_EXPECT \<and>
             sc_emitter call = None \<and> sc_callback call = CompareCallback f"
proof -
  from assms obtain n where n: "as_string name = Some n"
    by (cases "as_string name") (simp_all add: compare_def)
  from assms n obtain a where a: "as_string attr = Some a"
    by (cases "as_string attr") (simp_all add: compare_def)
  from assms n a obtain v where v: "as_string val = Some v"
    by (cases "as_string val") (simp_all add: compare_def)
  from assms n a v obtain cs cb' where cc: "controls_and_callback ctl cb = Inr (cs, cb')"
    by (cases "controls_and_callback ctl cb") (auto simp: compare_def)
  from assms n a v cc obtain f where f: "as_function cb' = Some f"
    by (cases "as_function cb'") (simp_all add: compare_def)
  from f have cb': "cb' = Function f" by (cases cb') simp_all
  have w: "ctl = Function f \<or> cb = Function f"
  proof (cases "as_function ctl")
    case None
    then have "controls_and_callback ctl cb =
                 (case validateControls ctl of Inl e \<Rightarrow> Inl e | Inr cs \<Rightarrow> Inr (cs, cb))"
      by (cases ctl) (simp_all add: controls_and_callback_def)
    with cc cb' show ?thesis by (simp split: sum.splits)
  next
    case (Some g)
    then have "ctl = Function g" by (cases ctl) simp_all
    with cc cb' show ?thesis by (simp add: controls_and_callback_def)
  qed
  from assms n a v cc f obtain d where d: "parse n = Inr d"
    by (cases "parse n") (simp_all add: compare_def)
  from assms n a v cc f d
  have "call = \<lparr> sc_message = new_request cs (CompareRequest d a v),
                   sc_expect = ExpectCodes CMP_EXPECT, sc_emitter = None,
                   sc_callback = CompareCallback f \<rparr>"
    by (simp add: compare_def)
  then have "sc_expect call = ExpectCodes CMP_EXPECT \<and> sc_emitter call = None \<and>
             sc_callback call = CompareCallback f"
    by simp
  with w show ?thesis by blast
qed

text \<open>
  C8. \<^verbatim>\<open>compare\<close> accepts its arguments and calls \<^verbatim>\<open>_send\<close>; the request is
  sent by \<^verbatim>\<open>_sendSocket\<close> on a socket that has its table, and the router then gets
  a response for the identifier the request was given: an \<^verbatim>\<open>LDAPResult\<close> with
  status \<open>rc\<close> that continues no paged search. Then the timer, if one was set, is
  cleared and the caller's function is called exactly once: with
  \<^verbatim>\<open>(null, true, res)\<close> for 6, with \<^verbatim>\<open>(null, false, res)\<close> for 5, and for every
  other status with the error made from the result and nothing else.
\<close>

theorem C8_compare_result:
  assumes "compare parse name attr val ctl cb = Inr call"
    and "socket c = Some sa" and "socket_at c sa = Some s" and "ldap s = Some l"
    and "paged_resend cs (controls (sc_message call)) = None"
  shows "\<exists>f. (ctl = Function f \<or> cb = Function f) \<and>
           trace (onMessage sa (fst (getNextMessageID l)) (LDAPResult (NumStatus rc) em cs)
                    (sendSocket call c)) =
             trace (sendSocket call c) @
             (if timeout c \<noteq> 0 then [ClearTimeout (length (closures c))] else []) @
             [Called f (if rc = 6 then [ANull, ABool True, AMsg (LDAPResult (NumStatus rc) em cs)]
                        else if rc = 5 then [ANull, ABool False, AMsg (LDAPResult (NumStatus rc) em cs)]
                        else [AErr (ServerError rc)])]"
proof -
  from compare_Inr [OF assms(1)] obtain f where
    w: "ctl = Function f \<or> cb = Function f" and ex: "sc_expect call = ExpectCodes CMP_EXPECT"
    and em: "sc_emitter call = None" and cbk: "sc_callback call = CompareCallback f"
    by blast
  let ?c1 = "sendSocket call c"
  let ?a = "length (closures c)"
  let ?mid = "fst (getNextMessageID l)"
  let ?p = "\<lparr> message = (sc_message call)\<lparr> messageID := ?mid \<rparr>,
               expect = sc_expect call, emitter = sc_emitter call, callback = sc_callback call,
               conn = sa, timer = (timeout c \<noteq> 0), sentEmitter = False \<rparr>"
  let ?msg = "LDAPResult (NumStatus rc) em cs"
  note inst = sendSocket_installs [OF assms(2-4), of call]
  have p: "closure_at ?c1 ?a = Some ?p" by (rule inst(1))
  from inst(2) obtain l' where l': "ldap_of ?c1 sa = Some l'"
    and t: "map_of (ldap_messages l') ?mid = Some ?a" by blast
  have om: "onMessage sa ?mid ?msg ?c1 = messageCallback ?a ?msg ?c1"
    using l' t by (simp add: onMessage_def)
  have ab: "expect ?p \<noteq> ExpectAbandon" by (simp add: ex)
  have np: "case msg_controls ?msg of None \<Rightarrow> True
            | Some rcs \<Rightarrow> paged_resend rcs (controls (message ?p)) = None"
    using assms(5) by simp
  note mc = messageCallback_terminal [OF p ab disjI1 [OF refl] np]
  have "trace (onMessage sa ?mid ?msg ?c1) =
          trace ?c1 @ (if timeout c \<noteq> 0 then [ClearTimeout ?a] else []) @
          [Called f (if rc = 6 then [ANull, ABool True, AMsg ?msg]
                     else if rc = 5 then [ANull, ABool False, AMsg ?msg]
                     else [AErr (ServerError rc)])]"
    unfolding om mc
    by (simp add: ex em cbk done_ev_def CMP_EXPECT_def LDAP_COMPARE_TRUE_def LDAP_COMPARE_FALSE_def)
  with w show ?thesis by blast
qed


theorem C8_compare_result_witness:
  "trace (onMessage 0 1 (LDAPResult (NumStatus 6) [] []) compare_sent) =
     trace compare_sent @ [ClearTimeout 0,
       Called 7 [ANull, ABool True, AMsg (LDAPResult (NumStatus 6) [] [])]] \<and>
   trace (onMessage 0 1 (LDAPResult (NumStatus 5) [] []) compare_sent) =
     trace compare_sent @ [ClearTimeout 0,
       Called 7 [ANull, ABool False, AMsg (LDAPResult (NumStatus 5) [] [])]] \<and>
   trace (onMessage 0 1 (LDAPResult (NumStatus 32) [] []) compare_sent) =
     trace compare_sent @ [ClearTimeout 0, Called 7 [AErr (ServerError 32)]]"
proof -
  let ?call = "\<lparr> sc_message = \<lparr> messageID = 0, controls = [],
                     protocolOp = CompareRequest [RDN [(''cn'', ''a'')]] ''sn'' ''x'' \<rparr>,
                  sc_expect = ExpectCodes CMP_EXPECT, sc_emitter = None,
                  sc_callback = CompareCallback 7 \<rparr>"
  let ?c = "the (connected_client opts_timeout)"
  let ?l = "\<lparr> ldap_id = ''1__ldap://localhost'', ldap_messageID = 0, ldap_messages = [] \<rparr>"
  let ?s = "\<lparr> ldap = Some ?l, unbindMessageID = None, writable = True, write_raises = None \<rparr>"
  have h1: "compare parse_cn (Str ''a'') (Str ''sn'') (Str ''x'') (Array []) (Function 7) = Inr ?call"
    by (simp add: compare_def controls_and_callback_def validateControls_def new_request_def)
  have h2: "socket ?c = Some 0" by code_simp
  have h3: "socket_at ?c 0 = Some ?s" by code_simp
  have h4: "ldap ?s = Some ?l" by simp
  have h5: "paged_resend [] (controls (sc_message ?call)) = None" by simp
  have sent: "compare_sent = sendSocket ?call ?c" by code_simp
  have mid: "fst (getNextMessageID ?l) = 1" by (simp add: getNextMessageID_value)
  have t: "timeout ?c = 50" by code_simp
  have n: "length (closures ?c) = 0" by code_simp
  note th = C8_compare_result [OF h1 h2 h3 h4 h5, unfolded mid t n, folded sent]
  from th [of 6 "[]"] th [of 5 "[]"] th [of 32 "[]"] show ?thesis by simp
qed


subsection \<open>The time limit of a search\<close>

lemma search_timeLimit:
  assumes "search parse parseString em base (Object kvs) ctl cb bypass = Inr (call, b)"
  shows "\<exists>r. protocolOp (sc_message call) = SearchRequest r \<and>
             timeLimit r = js_or (get_prop kvs ''timeLimit'') (Num 10)"
  using assms
  by (auto simp: search_def search_options_def new_request_def
           split: if_splits sum.splits prod.splits option.splits)

lemma search_options_timeLimit:
  assumes "search_options parseString options ctl cb = Inr (options1, ctl1, cb1)"
    and "option_props options1 = Some props"
  shows "get_prop props ''timeLimit'' =
           (case options of Object kvs \<Rightarrow> get_prop kvs ''timeLimit'' | _ \<Rightarrow> Undefined)"
  using assms
  by (cases options)
     (auto simp: search_options_def get_prop_def split: sum.splits)

text \<open>
  C10. A \<^verbatim>\<open>search\<close> call is made with arguments that are accepted: the base
  parses, the filter and the attributes of the options are of an accepted form, and
  the controls and the callback are accepted. Its options carry no time limit other
  than 0: they are an object whose \<^verbatim>\<open>timeLimit\<close> is left out or is 0, or they are
  given in the form of a filter string, of the callback, or of the controls, where no
  time limit can be written. Then the call issues a search request, the one written
  out below, and its \<^verbatim>\<open>timeLimit\<close> is 10: \<^verbatim>\<open>options.timeLimit || 10\<close> takes 10
  for undefined and for 0.
\<close>

theorem C10_timeLimit_zero_is_ten:
  assumes "base_dn parse base = Inr b"
    and "search_options parseString options ctl cb = Inr (options1, ctl1, cb1)"
    and "option_props options1 = Some props"
    and "option_filter parseString (get_prop props ''filter'') = Inr flt"
    and "controls_and_callback ctl1 cb1 = Inr (cs, Function f)"
    and "option_attributes (get_prop props ''attributes'') = Inr attrs"
    and "(\<exists>kvs. options = Object kvs \<and>
            (map_of kvs ''timeLimit'' = None \<or> map_of kvs ''timeLimit'' = Some (Num 0))) \<or>
         (\<forall>kvs. options \<noteq> Object kvs)"
  shows "search parse parseString em base options ctl cb bypass =
           Inr (\<lparr> sc_message =
                    \<lparr> messageID = 0, controls = cs,
                      protocolOp = SearchRequest
                        \<lparr> baseObject = b,
                          scope = js_or (get_prop props ''scope'') (Str ''base''),
                          search_filter = flt,
                          derefAliases = js_or (get_prop props ''derefAliases'')
                                           (Num NEVER_DEREF_ALIASES),
                          sizeLimit = js_or (get_prop props ''sizeLimit'') (Num 0),
                          timeLimit = Num 10,
                          typesOnly = js_or (get_prop props ''typesOnly'') (Bool False),
                          attributes = js_or attrs (Array []) \<rparr> \<rparr>,
                  sc_expect = ExpectCodes [LDAP_SUCCESS], sc_emitter = Some em,
                  sc_callback = UserCallback f \<rparr>, bypass)"
proof -
  have base: "is_base base"
    using assms(1) by (cases base) (simp_all add: is_base_def base_dn_def)
  have "get_prop props ''timeLimit'' = Undefined \<or> get_prop props ''timeLimit'' = Num 0"
    using assms(7) search_options_timeLimit [OF assms(2) assms(3)]
    by (cases options) (auto simp: get_prop_def)
  then have tl: "js_or (get_prop props ''timeLimit'') (Num 10) = Num 10"
    by (auto simp: js_or_def)
  show ?thesis
    by (simp add: search_def base assms(1-6) tl new_request_def)
qed

theorem C10_timeLimit_zero_is_ten_witness:
  "search parse_cn parse_filter 3 (Str ''o=test'')
     (Object [(''scope'', Str ''sub''), (''timeLimit'', Num 0)]) (Array []) (Function 7) False =
     Inr (\<lparr> sc_message = \<lparr> messageID = 0, controls = [],
               protocolOp = SearchRequest
                 \<lparr> baseObject = [RDN [(''cn'', ''o=test'')]], scope = Str ''sub'',
                   search_filter = PresenceFilter ''objectclass'', derefAliases = Num 0,
                   sizeLimit = Num 0, timeLimit = Num 10, typesOnly = Bool False,
                   attributes = Array [] \<rparr> \<rparr>,
             sc_expect = ExpectCodes [LDAP_SUCCESS], sc_emitter = Some 3,
             sc_callback = UserCallback 7 \<rparr>, False) \<and>
   search parse_cn parse_filter 3 (Str ''o=test'')
     (Object [(''scope'', Str ''sub'')]) (Array []) (Function 7) False =
     Inr (\<lparr> sc_message = \<lparr> messageID = 0, controls = [],
               protocolOp = SearchRequest
                 \<lparr> baseObject = [RDN [(''cn'', ''o=test'')]], scope = Str ''sub'',
                   search_filter = PresenceFilter ''objectclass'', derefAliases = Num 0,
                   sizeLimit = Num 0, timeLimit = Num 10, typesOnly = Bool False,
                   attributes = Array [] \<rparr> \<rparr>,
             sc_expect = ExpectCodes [LDAP_SUCCESS], sc_emitter = Some 3,
             sc_callback = UserCallback 7 \<rparr>, False) \<and>
   search parse_cn parse_filter 3 (Str ''o=test'') (Str ''(cn=x)'') (Array []) (Function 7) False =
     Inr (\<lparr> sc_message = \<lparr> messageID = 0, controls = [],
               protocolOp = SearchRequest
                 \<lparr> baseObject = [RDN [(''cn'', ''o=test'')]], scope = Str ''base'',
                   search_filter = ParsedFilter ''(cn=x)'', derefAliases = Num 0,
                   sizeLimit = Num 0, timeLimit = Num 10, typesOnly = Bool False,
                   attributes = Array [] \<rparr> \<rparr>,
             sc_expect = ExpectCodes [LDAP_SUCCESS], sc_emitter = Some 3,
             sc_callback = UserCallback 7 \<rparr>, False) \<and>
   search parse_cn parse_filter 3 (Str ''o=test'') (Function 7) Undefined Undefined False =
     Inr (\<lparr> sc_message = \<lparr> messageID = 0, controls = [],
               protocolOp = SearchRequest
                 \<lparr> baseObject = [RDN [(''cn'', ''o=test'')]], scope = Str ''base'',
                   search_filter = PresenceFilter ''objectclass'', derefAliases = Num 0,
                   sizeLimit = Num 0, timeLimit = Num 10, typesOnly = Bool False,
                   attributes = Array [] \<rparr> \<rparr>,
             sc_expect = ExpectCodes [LDAP_SUCCESS], sc_emitter = Some 3,
             sc_callback = UserCallback 7 \<rparr>, False) \<and>
   search parse_cn parse_filter 3 (DNObj [RDN [(''o'', ''test'')]])
     (Array [ControlObj (OtherControl ''1.2.3'')]) Undefined (Function 7) True =
     Inr (\<lparr> sc_message = \<lparr> messageID = 0, controls = [OtherControl ''1.2.3''],
               protocolOp = SearchRequest
                 \<lparr> baseObject = [RDN [(''o'', ''test'')]], scope = Str ''base'',
                   search_filter = PresenceFilter ''objectclass'', derefAliases = Num 0,
                   sizeLimit = Num 0, timeLimit = Num 10, typesOnly = Bool False,
                   attributes = Array [] \<rparr> \<rparr>,
             sc_expect = ExpectCodes [LDAP_SUCCESS], sc_emitter = Some 3,
             sc_callback = UserCallback 7 \<rparr>, True)"
proof -
  have b: "base_dn parse_cn (Str ''o=test'') = Inr [RDN [(''cn'', ''o=test'')]]"
    by (simp add: base_dn_def)
  have b': "base_dn parse_cn (DNObj [RDN [(''o'', ''test'')]]) = Inr [RDN [(''o'', ''test'')]]"
    by (simp add: base_dn_def)
  have cc: "controls_and_callback (Array []) (Function 7) = Inr ([], Function 7)"
    by (simp add: controls_and_callback_def validateControls_def)
  have cc': "controls_and_callback (Array [ControlObj (OtherControl ''1.2.3'')]) (Function 7) =
               Inr ([OtherControl ''1.2.3''], Function 7)"
    by (simp add: controls_and_callback_def validateControls_def)
  have o0: "search_options parse_filter
              (Object [(''scope'', Str ''sub''), (''timeLimit'', Num 0)]) (Array []) (Function 7) =
            Inr (Object [(''scope'', Str ''sub''), (''timeLimit'', Num 0)], Array [], Function 7)"
    and o1: "search_options parse_filter (Object [(''scope'', Str ''sub'')]) (Array []) (Function 7) =
            Inr (Object [(''scope'', Str ''sub'')], Array [], Function 7)"
    and o2: "search_options parse_filter (Str ''(cn=x)'') (Array []) (Function 7) =
            Inr (Object [(''filter'', FilterObj (ParsedFilter ''(cn=x)''))], Array [], Function 7)"
    and o3: "search_options parse_filter (Function 7) Undefined Undefined =
            Inr (Object [(''filter'', FilterObj (PresenceFilter ''objectclass''))], Array [],
                 Function 7)"
    and o4: "search_options parse_filter (Array [ControlObj (OtherControl ''1.2.3'')]) Undefined
               (Function 7) =
            Inr (Object [], Array [ControlObj (OtherControl ''1.2.3'')], Function 7)"
    by (simp_all add: search_options_def)
  have p0: "option_props (Object [(''scope'', Str ''sub''), (''timeLimit'', Num 0)]) =
              Some [(''scope'', Str ''sub''), (''timeLimit'', Num 0)]"
    and p1: "option_props (Object [(''scope'', Str ''sub'')]) = Some [(''scope'', Str ''sub'')]"
    and p2: "option_props (Object [(''filter'', FilterObj (ParsedFilter ''(cn=x)''))]) =
              Some [(''filter'', FilterObj (ParsedFilter ''(cn=x)''))]"
    and p3: "option_props (Object [(''filter'', FilterObj (PresenceFilter ''objectclass''))]) =
              Some [(''filter'', FilterObj (PresenceFilter ''objectclass''))]"
    and p4: "option_props (Object []) = Some []"
    by simp_all
  have f0: "option_filter parse_filter
              (get_prop [(''scope'', Str ''sub''), (''timeLimit'', Num 0)] ''filter'') =
            Inr (PresenceFilter ''objectclass'')"
    and f1: "option_filter parse_filter (get_prop [(''scope'', Str ''sub'')] ''filter'') =
            Inr (PresenceFilter ''objectclass'')"
    and f2: "option_filter parse_filter
               (get_prop [(''filter'', FilterObj (ParsedFilter ''(cn=x)''))] ''filter'') =
            Inr (ParsedFilter ''(cn=x)'')"
    and f3: "option_filter parse_filter
               (get_prop [(''filter'', FilterObj (PresenceFilter ''objectclass''))] ''filter'') =
            Inr (PresenceFilter ''objectclass'')"
    and f4: "option_filter parse_filter (get_prop [] ''filter'') =
            Inr (PresenceFilter ''objectclass'')"
    by (simp_all add: option_filter_def get_prop_def)
  have a0: "option_attributes
              (get_prop [(''scope'', Str ''sub''), (''timeLimit'', Num 0)] ''attributes'') =
            Inr Undefined"
    and a1: "option_attributes (get_prop [(''scope'', Str ''sub'')] ''attributes'') = Inr Undefined"
    and a2: "option_attributes
               (get_prop [(''filter'', FilterObj (ParsedFilter ''(cn=x)''))] ''attributes'') =
             Inr Undefined"
    and a3: "option_attributes
               (get_prop [(''filter'', FilterObj (PresenceFilter ''objectclass''))] ''attributes'') =
             Inr Undefined"
    and a4: "option_attributes (get_prop [] ''attributes'') = Inr Undefined"
    by (simp_all add: option_attributes_def get_prop_def)
  have t0: "(\<exists>kvs. Object [(''scope'', Str ''sub''), (''timeLimit'', Num 0)] = Object kvs \<and>
               (map_of kvs ''timeLimit'' = None \<or> map_of kvs ''timeLimit'' = Some (Num 0))) \<or>
            (\<forall>kvs. Object [(''scope'', Str ''sub''), (''timeLimit'', Num 0)] \<noteq> Object kvs)"
    and t1: "(\<exists>kvs. Object [(''scope'', Str ''sub'')] = Object kvs \<and>
               (map_of kvs ''timeLimit'' = None \<or> map_of kvs ''timeLimit'' = Some (Num 0))) \<or>
            (\<forall>kvs. Object [(''scope'', Str ''sub'')] \<noteq> Object kvs)"
    and t2: "(\<exists>kvs. Str ''(cn=x)'' = Object kvs \<and>
               (map_of kvs ''timeLimit'' = None \<or> map_of kvs ''timeLimit'' = Some (Num 0))) \<or>
            (\<forall>kvs. Str ''(cn=x)'' \<noteq> Object kvs)"
    and t3: "(\<exists>kvs. Function 7 = Object kvs \<and>
               (map_of kvs ''timeLimit'' = None \<or> map_of kvs ''timeLimit'' = Some (Num 0))) \<or>
            (\<forall>kvs. Function 7 \<noteq> Object kvs)"
    and t4: "(\<exists>kvs. Array [ControlObj (OtherControl ''1.2.3'')] = Object kvs \<and>
               (map_of kvs ''timeLimit'' = None \<or> map_of kvs ''timeLimit'' = Some (Num 0))) \<or>
            (\<forall>kvs. Array [ControlObj (OtherControl ''1.2.3'')] \<noteq> Object kvs)"
    by simp_all
  note r0 = C10_timeLimit_zero_is_ten [OF b o0 p0 f0 cc a0 t0, where em = 3 and bypass = False]
    and r1 = C10_timeLimit_zero_is_ten [OF b o1 p1 f1 cc a1 t1, where em = 3 and bypass = False]
    and r2 = C10_timeLimit_zero_is_ten [OF b o2 p2 f2 cc a2 t2, where em = 3 and bypass = False]
    and r3 = C10_timeLimit_zero_is_ten [OF b o3 p3 f3 cc a3 t3, where em = 3 and bypass = False]
    and r4 = C10_timeLimit_zero_is_ten [OF b' o4 p4 f4 cc' a4 t4, where em = 3 and bypass = True]
  show ?thesis
    unfolding r0 r1 r2 r3 r4
    by (simp add: js_or_def get_prop_def NEVER_DEREF_ALIASES_def)
qed

subsection \<open>The request of modifyDN\<close>

lemma modifyDN_deleteOldRdn:
  assumes "modifyDN parse rdn_toString name newName ctl cb = Inr call"
  shows "\<exists>r. protocolOp (sc_message call) = ModifyDNRequest r \<and> deleteOldRdn r"
proof -
  from assms obtain n where n: "as_string name = Some n"
    by (cases "as_string name") (simp_all add: modifyDN_def)
  from assms n obtain nn where nn: "as_string newName = Some nn"
    by (cases "as_string newName") (simp_all add: modifyDN_def)
  from assms n nn obtain cs cb' where cc: "controls_and_callback ctl cb = Inr (cs, cb')"
    by (cases "controls_and_callback ctl cb") (auto simp: modifyDN_def)
  from assms n nn cc obtain f where f: "as_function cb' = Some f"
    by (cases "as_function cb'") (simp_all add: modifyDN_def)
  from assms n nn cc f obtain DN where d: "parse n = Inr DN"
    by (cases "parse n") (simp_all add: modifyDN_def)
  from assms n nn cc f d obtain newDN where nd: "parse nn = Inr newDN"
    by (cases "parse nn") (simp_all add: modifyDN_def)
  show ?thesis
  proof (cases newDN)
    case Nil
    with assms n nn cc f d nd show ?thesis by (simp add: modifyDN_def)
  next
    case (Cons r rest)
    show ?thesis
    proof (cases rest)
      case Nil
      with Cons assms n nn cc f d nd show ?thesis
        by (auto simp: modifyDN_def new_request_def)
    next
      case (Cons r' rest')
      with \<open>newDN = r # rest\<close> assms n nn cc f d nd show ?thesis
        by (cases "parse (rdn_toString r)") (auto simp: modifyDN_def new_request_def)
    qed
  qed
qed

text \<open>
  C9. The names parse, and the controls and the callback are accepted. The new DN has
  at least one RDN: \<^verbatim>\<open>dn.parse\<close> is the parser of lib/dn, a parameter here, and it
  reads one RDN before it looks for a separator, also in the empty string. If the new
  DN has more than one RDN, the request has what \<^verbatim>\<open>dn.parse\<close> makes of the first
  RDN's string as \<^verbatim>\<open>newRdn\<close> (the DN of that RDN alone, for a parser that reads
  back what \<^verbatim>\<open>toString\<close> writes) and the remaining RDNs as \<^verbatim>\<open>newSuperior\<close>.
  Otherwise the whole new DN is \<^verbatim>\<open>newRdn\<close> and there is no \<^verbatim>\<open>newSuperior\<close>. Every
  request that is built has \<^verbatim>\<open>deleteOldRdn\<close> true.
\<close>

theorem C9_modifyDN_request:
  assumes "parse n = Inr DN" and "parse nn = Inr newDN" and "newDN \<noteq> []"
    and "controls_and_callback ctl cb = Inr (cs, Function f)"
  shows
    "(length newDN > 1 \<and> parse (rdn_toString (hd newDN)) = Inr d \<longrightarrow>
        modifyDN parse rdn_toString (Str n) (Str nn) ctl cb =
          Inr \<lparr> sc_message = \<lparr> messageID = 0, controls = cs,
                    protocolOp = ModifyDNRequest
                      \<lparr> entry = DN, deleteOldRdn = True, newRdn = Some d,
                        newSuperior = Some (tl newDN) \<rparr> \<rparr>,
                sc_expect = ExpectCodes [LDAP_SUCCESS], sc_emitter = None,
                sc_callback = UserCallback f \<rparr>) \<and>
     (\<not> length newDN > 1 \<longrightarrow>
        modifyDN parse rdn_toString (Str n) (Str nn) ctl cb =
          Inr \<lparr> sc_message = \<lparr> messageID = 0, controls = cs,
                    protocolOp = ModifyDNRequest
                      \<lparr> entry = DN, deleteOldRdn = True, newRdn = Some newDN,
                        newSuperior = None \<rparr> \<rparr>,
                sc_expect = ExpectCodes [LDAP_SUCCESS], sc_emitter = None,
                sc_callback = UserCallback f \<rparr>) \<and>
     (\<forall>call. modifyDN parse rdn_toString (Str n) (Str nn) ctl cb = Inr call \<longrightarrow>
        (\<exists>r. protocolOp (sc_message call) = ModifyDNRequest r \<and> deleteOldRdn r))"
proof (intro conjI impI allI)
  assume h: "length newDN > 1 \<and> parse (rdn_toString (hd newDN)) = Inr d"
  then obtain r rest where nd: "newDN = r # rest" by (cases newDN) auto
  with h assms show "modifyDN parse rdn_toString (Str n) (Str nn) ctl cb =
          Inr \<lparr> sc_message = \<lparr> messageID = 0, controls = cs,
                    protocolOp = ModifyDNRequest
                      \<lparr> entry = DN, deleteOldRdn = True, newRdn = Some d,
                        newSuperior = Some (tl newDN) \<rparr> \<rparr>,
                sc_expect = ExpectCodes [LDAP_SUCCESS], sc_emitter = None,
                sc_callback = UserCallback f \<rparr>"
    by (simp add: modifyDN_def new_request_def)
next
  assume "\<not> length newDN > 1"
  with assms(3) have "length newDN = 1" by (cases newDN) auto
  with assms show "modifyDN parse rdn_toString (Str n) (Str nn) ctl cb =
          Inr \<lparr> sc_message = \<lparr> messageID = 0, controls = cs,
                    protocolOp = ModifyDNRequest
                      \<lparr> entry = DN, deleteOldRdn = True, newRdn = Some newDN,
                        newSuperior = None \<rparr> \<rparr>,
                sc_expect = ExpectCodes [LDAP_SUCCESS], sc_emitter = None,
                sc_callback = UserCallback f \<rparr>"
    by (simp add: modifyDN_def new_request_def)
next
  fix call
  assume "modifyDN parse rdn_toString (Str n) (Str nn) ctl cb = Inr call"
  then show "\<exists>r. protocolOp (sc_message call) = ModifyDNRequest r \<and> deleteOldRdn r"
    by (rule modifyDN_deleteOldRdn)
qed

theorem C9_modifyDN_request_witness:
  "modifyDN parse_commas rdn_string (Str ''cn=old,o=b'') (Str ''cn=a,o=b'') (Array []) (Function 7) =
     Inr \<lparr> sc_message = \<lparr> messageID = 0, controls = [],
               protocolOp = ModifyDNRequest
                 \<lparr> entry = [RDN [(''cn'', ''old'')], RDN [(''o'', ''b'')]], deleteOldRdn = True,
                   newRdn = Some [RDN [(''cn'', ''a'')]],
                   newSuperior = Some [RDN [(''o'', ''b'')]] \<rparr> \<rparr>,
           sc_expect = ExpectCodes [LDAP_SUCCESS], sc_emitter = None,
           sc_callback = UserCallback 7 \<rparr> \<and>
   modifyDN parse_commas rdn_string (Str ''cn=old,o=b'') (Str ''cn=a'') (Array []) (Function 7) =
     Inr \<lparr> sc_message = \<lparr> messageID = 0, controls = [],
               protocolOp = ModifyDNRequest
                 \<lparr> entry = [RDN [(''cn'', ''old'')], RDN [(''o'', ''b'')]], deleteOldRdn = True,
                   newRdn = Some [RDN [(''cn'', ''a'')]], newSuperior = None \<rparr> \<rparr>,
           sc_expect = ExpectCodes [LDAP_SUCCESS], sc_emitter = None,
           sc_callback = UserCallback 7 \<rparr> \<and>
   modifyDN parse_commas rdn_string (Str ''cn=old,o=b'') (Str []) (Array []) (Function 7) =
     Inr \<lparr> sc_message = \<lparr> messageID = 0, controls = [],
               protocolOp = ModifyDNRequest
                 \<lparr> entry = [RDN [(''cn'', ''old'')], RDN [(''o'', ''b'')]], deleteOldRdn = True,
                   newRdn = Some [RDN []], newSuperior = None \<rparr> \<rparr>,
           sc_expect = ExpectCodes [LDAP_SUCCESS], sc_emitter = None,
           sc_callback = UserCallback 7 \<rparr>"
proof -
  have c: "controls_and_callback (Array []) (Function 7) = Inr ([], Function 7)"
    by (simp add: controls_and_callback_def validateControls_def)
  have p0: "parse_commas ''cn=old,o=b'' = Inr [RDN [(''cn'', ''old'')], RDN [(''o'', ''b'')]]"
    by simp
  have p1: "parse_commas ''cn=a,o=b'' = Inr [RDN [(''cn'', ''a'')], RDN [(''o'', ''b'')]]"
    by simp
  have p2: "parse_commas ''cn=a'' = Inr [RDN [(''cn'', ''a'')]]"
    by simp
  have p3: "parse_commas [] = Inr [RDN []]"
    by simp
  have n1: "[RDN [(''cn'', ''a'')], RDN [(''o'', ''b'')]] \<noteq> []"
    and n2: "[RDN [(''cn'', ''a'')]] \<noteq> []" and n3: "[RDN []] \<noteq> []"
    by simp_all
  from C9_modifyDN_request
    [where parse = parse_commas and n = "''cn=old,o=b''" and nn = "''cn=a,o=b''"
       and rdn_toString = rdn_string and d = "[RDN [(''cn'', ''a'')]]",
     OF p0 p1 n1 c, THEN conjunct1]
  have a: "modifyDN parse_commas rdn_string (Str ''cn=old,o=b'') (Str ''cn=a,o=b'') (Array []) (Function 7) =
     Inr \<lparr> sc_message = \<lparr> messageID = 0, controls = [],
               protocolOp = ModifyDNRequest
                 \<lparr> entry = [RDN [(''cn'', ''old'')], RDN [(''o'', ''b'')]], deleteOldRdn = True,
                   newRdn = Some [RDN [(''cn'', ''a'')]],
                   newSuperior = Some [RDN [(''o'', ''b'')]] \<rparr> \<rparr>,
           sc_expect = ExpectCodes [LDAP_SUCCESS], sc_emitter = None,
           sc_callback = UserCallback 7 \<rparr>"
    by simp
  from C9_modifyDN_request
    [where parse = parse_commas and n = "''cn=old,o=b''" and nn = "''cn=a''"
       and rdn_toString = rdn_string,
     OF p0 p2 n2 c, THEN conjunct2, THEN conjunct1]
  have b: "modifyDN parse_commas rdn_string (Str ''cn=old,o=b'') (Str ''cn=a'') (Array []) (Function 7) =
     Inr \<lparr> sc_message = \<lparr> messageID = 0, controls = [],
               protocolOp = ModifyDNRequest
                 \<lparr> entry = [RDN [(''cn'', ''old'')], RDN [(''o'', ''b'')]], deleteOldRdn = True,
                   newRdn = Some [RDN [(''cn'', ''a'')]], newSuperior = None \<rparr> \<rparr>,
           sc_expect = ExpectCodes [LDAP_SUCCESS], sc_emitter = None,
           sc_callback = UserCallback 7 \<rparr>"
    by simp
  from C9_modifyDN_request
    [where parse = parse_commas and n = "''cn=old,o=b''" and nn = "[]"
       and rdn_toString = rdn_string,
     OF p0 p3 n3 c, THEN conjunct2, THEN conjunct1]
  have e: "modifyDN parse_commas rdn_string (Str ''cn=old,o=b'') (Str []) (Array []) (Function 7) =
     Inr \<lparr> sc_message = \<lparr> messageID = 0, controls = [],
               protocolOp = ModifyDNRequest
                 \<lparr> entry = [RDN [(''cn'', ''old'')], RDN [(''o'', ''b'')]], deleteOldRdn = True,
                   newRdn = Some [RDN []], newSuperior = None \<rparr> \<rparr>,
           sc_expect = ExpectCodes [LDAP_SUCCESS], sc_emitter = None,
           sc_callback = UserCallback 7 \<rparr>"
    by simp
  from a b e show ?thesis by blast
qed

subsection \<open>The depth of \<^verbatim>\<open>_send\<close>\<close>

lemma sendSocket_keeps:
  "socket (sendSocket call c) = socket c"
  "connected (sendSocket call c) = connected c"
  "queue (sendSocket call c) = queue c"
  by (simp_all add: sendSocket_def Let_def split: option.splits prod.splits)

text \<open>With a socket, connected and with an empty queue, a call has nothing to flush.\<close>

lemma send_fuel_empty_queue:
  assumes "socket c \<noteq> None" and "connected c" and "q_queue (queue c) = []"
  shows "send_fuel (Suc n) call False c =
           Some (sendSocket call (c\<lparr> queue := (queue c)\<lparr> q_timer := None, q_queue := [] \<rparr> \<rparr>))"
proof -
  from assms(1) obtain sa where "socket c = Some sa" by auto
  with assms(2,3) show ?thesis by (simp add: flush_def)
qed

lemma fold_send_fuel:
  assumes "socket c \<noteq> None" and "connected c" and "q_queue (queue c) = []"
  shows "\<exists>c'. fold_option (\<lambda>e. send_fuel (Suc n) e False) items c = Some c' \<and>
              fold_option (\<lambda>e. send_fuel (Suc 0) e False) items c = Some c' \<and>
              socket c' \<noteq> None \<and> connected c' \<and> q_queue (queue c') = []"
  using assms
proof (induction items arbitrary: c)
  case Nil
  then show ?case by simp
next
  case (Cons e items)
  let ?c' = "sendSocket e (c\<lparr> queue := (queue c)\<lparr> q_timer := None, q_queue := [] \<rparr> \<rparr>)"
  have a: "send_fuel (Suc n) e False c = Some ?c'" and b: "send_fuel (Suc 0) e False c = Some ?c'"
    using Cons.prems by (simp_all only: send_fuel_empty_queue [OF Cons.prems])
  have "socket ?c' \<noteq> None" "connected ?c'" "q_queue (queue ?c') = []"
    using Cons.prems by (simp_all add: sendSocket_keeps)
  from Cons.IH [OF this] a b show ?case by simp
qed

text \<open>
  The bound on the depth of \<open>send_fuel\<close> is never reached from depth two on: a call
  returns, and with more fuel it returns the same.
\<close>

lemma send_fuel_enough:
  "\<exists>c'. send_fuel (Suc (Suc n)) call bypass c = Some c' \<and> client_send call bypass c = Some c'"
proof (cases "bypass \<and> socket_writable c")
  case True
  then show ?thesis by (simp add: client_send_def numeral_2_eq_2)
next
  case nb: False
  show ?thesis
  proof (cases "socket c = None \<or> \<not> connected c")
    case True
    have c1: "(bypass \<and> socket_writable c) = False" using nb by simp
    have c2: "(socket c = None \<or> \<not> connected c) = True" using True by simp
    show ?thesis
      unfolding client_send_def numeral_2_eq_2 send_fuel.simps c1 c2
      by (simp add: Let_def split: prod.splits)
  next
    case False
    let ?c0 = "c\<lparr> queue := (queue c)\<lparr> q_timer := None, q_queue := [] \<rparr> \<rparr>"
    have "socket ?c0 \<noteq> None" "connected ?c0" "q_queue (queue ?c0) = []"
      using False by simp_all
    from fold_send_fuel [OF this, of n "q_queue (queue c)"] obtain c' where
      "fold_option (\<lambda>e. send_fuel (Suc n) e False) (q_queue (queue c)) ?c0 = Some c'"
      "fold_option (\<lambda>e. send_fuel (Suc 0) e False) (q_queue (queue c)) ?c0 = Some c'"
      by blast
    note f = this
    have c1: "(bypass \<and> socket_writable c) = False" using nb by simp
    have c2: "(socket c = None \<or> \<not> connected c) = False" using False by simp
    show ?thesis
      unfolding client_send_def numeral_2_eq_2 send_fuel.simps(2) [of "Suc n"]
        send_fuel.simps(2) [of "Suc 0"] c1 c2
      using f by (simp add: flush_def)
  qed
qed

lemma client_send_total: "\<exists>c'. client_send call bypass c = Some c'"
  using send_fuel_enough [of 0 call bypass c] by blast

subsection \<open>After \<^verbatim>\<open>destroy\<close>\<close>

text \<open>
  C2 on the code. \<^verbatim>\<open>destroy\<close> sets \<^verbatim>\<open>this.destroyed\<close>, and nothing reads it:
  when the socket of a destroyed client that was made with a reconnect option closes
  with an error, and no connection is being made, \<^verbatim>\<open>_onClose\<close> calls
  \<^verbatim>\<open>_connect\<close>, which starts a new retry, that is, a new connection attempt.
\<close>

theorem C2_reconnect_after_destroy:
  assumes "destroyed c" and "reconnect c = Some r" and "\<not> connecting c"
    and "socket c = Some sa" and "socket_at c sa = Some s" and "ldap s = Some l"
    and "distinct (map fst (ldap_messages l))"
    and "\<forall>(k, a) \<in> set (ldap_messages l).
           \<exists>p. closure_at c a = Some p \<and> messageID (message p) = k \<and> conn p = sa"
  shows "destroyed (onClose True c) \<and> connecting (onClose True c) \<and>
         (\<exists>tr. trace (onClose True c) =
            tr @ [RetryStart (Some (ExponentialStrategy (map_of r ''minDelay'') (map_of r ''maxDelay'')))
                    (case map_of r ''failAfter'' of
                       None \<Rightarrow> None
                     | Some n \<Rightarrow> if n \<noteq> 0 then Some n else None)])"
proof -
  let ?c1 = "emit [ClientEmit ''close''] (c\<lparr> socket := None, connected := False \<rparr>)"
  let ?T = "ldap_messages l"
  let ?c2 = "fold (onClose_entry sa) (map fst ?T) ?c1"
  let ?c3 = "update_socket sa (\<lambda>s. s\<lparr> ldap := None \<rparr>) ?c2"
  have s1: "socket_at ?c1 sa = Some s"
    using assms(5) by (auto simp: socket_at_def emit_def split: if_splits)
  have l1: "ldap_of ?c1 sa = Some l"
    using s1 assms(6) by (simp add: ldap_of_def)
  have ca: "closure_at (c\<lparr> socket := None, connected := False \<rparr>) a = closure_at c a" for a
    by (simp add: closure_at_def)
  have inv: "\<forall>(k, a) \<in> set ?T. map_of ?T k = Some a \<and>
           (\<exists>p. closure_at ?c1 a = Some p \<and> messageID (message p) = k \<and> conn p = sa)"
    using assms(7,8) by (auto simp: ca)
  from onClose_loop [OF s1 assms(6) assms(7) inv]
  have f: "reconnect ?c2 = Some r" "connecting ?c2 = False" "destroyed ?c2"
    using assms(1-3) by simp_all
  have eq: "onClose True c = connect ?c3"
    using assms(4) l1 f by (simp add: onClose_def Let_def)
  have "connect ?c3 =
          emit [RetryStart (Some (ExponentialStrategy (map_of r ''minDelay'') (map_of r ''maxDelay'')))
                  (case map_of r ''failAfter'' of
                     None \<Rightarrow> None
                   | Some n \<Rightarrow> if n \<noteq> 0 then Some n else None)]
            (?c3\<lparr> connecting := True, retrying := True \<rparr>)"
    using f by (simp add: connect_def)
  with f show ?thesis unfolding eq by simp
qed

theorem C2_reconnect_after_destroy_witness:
  "destroyed destroyed_client \<and> \<not> connecting destroyed_client \<and>
   destroyed (onClose True destroyed_client) \<and> connecting (onClose True destroyed_client) \<and>
   (\<exists>tr. trace (onClose True destroyed_client) =
          tr @ [RetryStart (Some (ExponentialStrategy None (Some 10000))) None])"
proof -
  let ?r = "[(''initialDelay'', 100), (''maxDelay'', 10000), (''failAfter'', 0)]"
  let ?l = "\<lparr> ldap_id = ''1__ldap://localhost'', ldap_messageID = 1, ldap_messages = [(1, 0)] \<rparr>"
  let ?s = "\<lparr> ldap = Some ?l, unbindMessageID = None, writable = True, write_raises = None \<rparr>"
  let ?p = "\<lparr> message = \<lparr> messageID = 1, controls = [], protocolOp = UnbindRequest \<rparr>,
               expect = ExpectUnbind, emitter = None, callback = Noop,
               conn = 0, timer = False, sentEmitter = False \<rparr>"
  have h1: "destroyed destroyed_client" by code_simp
  have h2: "reconnect destroyed_client = Some ?r" by code_simp
  have h3: "\<not> connecting destroyed_client" by code_simp
  have h4: "socket destroyed_client = Some 0" by code_simp
  have h5: "socket_at destroyed_client 0 = Some ?s" by code_simp
  have h6: "ldap ?s = Some ?l" by simp
  have h7: "distinct (map fst (ldap_messages ?l))" by simp
  have c0: "closure_at destroyed_client 0 = Some ?p" by code_simp
  have h8: "\<forall>(k, a) \<in> set (ldap_messages ?l).
              \<exists>p. closure_at destroyed_client a = Some p \<and> messageID (message p) = k \<and> conn p = 0"
    using c0 by simp
  from C2_reconnect_after_destroy [OF h1 h2 h3 h4 h5 h6 h7 h8] h1 h3
  show ?thesis by simp
qed


lemma destroy_total: "\<exists>c'. destroy c = Some c'"
proof -
  have "\<exists>c'. unbind_with cb c0 = Some c'" for cb c0
    using client_send_total by (simp add: unbind_with_def)
  then show ?thesis
    by (auto simp: destroy_def Let_def split: prod.splits option.splits)
       (metis option.distinct(1))
qed

text \<open>
  The client of the witness, step by step: it connects, \<^verbatim>\<open>destroy\<close> writes the
  Unbind and emits \<^verbatim>\<open>'destroy'\<close>, the socket closes with an error, the Unbind gets
  the connection error, and a second retry starts.
\<close>

lemma destroyed_client_trace:
  "trace (onClose True destroyed_client) =
     [RetryStart (Some (ExponentialStrategy None (Some 10000))) None, ClientEmit ''connect'',
      SocketWrite 0 \<lparr> messageID = 1, controls = [], protocolOp = UnbindRequest \<rparr>,
      ClientEmit ''destroy'', ClientEmit ''close'',
      CalledNoop [AErr (ConnectionError ''1__ldap://localhost closed'')],
      RetryStart (Some (ExponentialStrategy None (Some 10000))) None]"
  by code_simp

text \<open>
  What \<^verbatim>\<open>destroy\<close> does do: a request that waits in the queue of a client that has
  not connected yet is completed with an error, the queue is frozen, and the retry that
  is running is aborted.
\<close>

lemma destroy_errors_queued_request:
  "(case compare parse_cn (Str ''a'') (Str ''sn'') (Str ''x'') (Array []) (Function 7) of
      Inr call \<Rightarrow>
        map_option (\<lambda>c. (trace c, q_queue (queue c), q_frozen (queue c)))
          (Option.bind (client_send call False (Client opts_reconnect)) destroy)) =
   Some ([RetryStart (Some (ExponentialStrategy None (Some 10000))) None,
          Called 7 [AErr (JsError ''client destroyed'')], CalledNoop [],
          ClientEmit ''destroy'', RetryAbort],
         [], True)"
  by code_simp


end
